theory Spec2Isabelle
  imports Main "HOL-Library.AList" "HOL-Library.Char_ord" "HOL-Library.List_Lexorder"
begin

section \<open>Strings and paths\<close>

text \<open>
  Go strings are byte strings; they are modelled as \<open>string\<close>.  The helpers below are
  the functions of Go's \<open>strings\<close> and \<open>path/filepath\<close> packages (Unix flavour) that
  the storage engine calls.
\<close>

definition HasPrefix :: "string \<Rightarrow> string \<Rightarrow> bool" where
  "HasPrefix s p = (take (length p) s = p)"

definition HasSuffix :: "string \<Rightarrow> string \<Rightarrow> bool" where
  "HasSuffix s x = (length x \<le> length s \<and> drop (length s - length x) s = x)"

definition TrimPrefix :: "string \<Rightarrow> string \<Rightarrow> string" where
  "TrimPrefix s p = (if HasPrefix s p then drop (length p) s else s)"


text \<open>\<open>splitOn c s\<close> is \<open>strings.Split(s, c)\<close> for a one-byte separator.\<close>

fun splitOn :: "char \<Rightarrow> string \<Rightarrow> string list" where
  "splitOn c [] = [[]]"
| "splitOn c (x # xs) =
     (if x = c then [] # splitOn c xs
      else (case splitOn c xs of [] \<Rightarrow> [[x]] | w # ws \<Rightarrow> (x # w) # ws))"



text \<open>
  \<open>splitFirst d s\<close> finds the first occurrence of the delimiter \<open>d\<close> in \<open>s\<close>; it is
  \<open>strings.SplitN(s, d, 2)\<close>, with \<open>None\<close> for a result of length one.
\<close>

fun splitFirst :: "string \<Rightarrow> string \<Rightarrow> (string \<times> string) option" where
  "splitFirst d [] = (if d = [] then Some ([], []) else None)"
| "splitFirst d (x # xs) =
     (if HasPrefix (x # xs) d then Some ([], drop (length d) (x # xs))
      else (case splitFirst d xs of None \<Rightarrow> None
            | Some (a, b) \<Rightarrow> Some (x # a, b)))"

text \<open>Lexical path cleaning, \<open>filepath.Clean\<close>: the stack of kept components.\<close>

fun cleanComps :: "bool \<Rightarrow> string list \<Rightarrow> string list \<Rightarrow> string list" where
  "cleanComps rooted acc [] = rev acc"
| "cleanComps rooted acc (c # cs) =
     (if c = [] \<or> c = ''.'' then cleanComps rooted acc cs
      else if c = ''..'' then
        (case acc of
           [] \<Rightarrow> if rooted then cleanComps rooted [] cs else cleanComps rooted [''..''] cs
         | a # as \<Rightarrow> if a = ''..'' then cleanComps rooted (c # acc) cs
                     else cleanComps rooted as cs)
      else cleanComps rooted (c # acc) cs)"

fun joinSlash :: "string list \<Rightarrow> string" where
  "joinSlash [] = []"
| "joinSlash [c] = c"
| "joinSlash (c # cs) = c @ ''/'' @ joinSlash cs"

definition Clean :: "string \<Rightarrow> string" where
  "Clean p =
     (let rooted = HasPrefix p ''/'';
          cs = cleanComps rooted [] (splitOn CHR ''/'' p)
      in if rooted then ''/'' @ joinSlash cs
         else if cs = [] then ''.'' else joinSlash cs)"

text \<open>\<open>filepath.Join\<close>: empty elements are ignored, the rest joined and cleaned.\<close>

definition Join :: "string list \<Rightarrow> string" where
  "Join elems =
     (let es = filter (\<lambda>e. e \<noteq> []) elems
      in if es = [] then [] else Clean (joinSlash es))"

text \<open>\<open>filepath.Dir\<close>: everything up to the last separator, cleaned.\<close>

definition Dir :: "string \<Rightarrow> string" where
  "Dir p = Clean (rev (dropWhile (\<lambda>c. c \<noteq> CHR ''/'') (rev p)))"

text \<open>\<open>filepath.Base\<close>: the last element, trailing separators removed.\<close>

definition Base :: "string \<Rightarrow> string" where
  "Base p =
     (if p = [] then ''.''
      else let q = rev (dropWhile (\<lambda>c. c = CHR ''/'') (rev p))
           in if q = [] then ''/''
              else rev (takeWhile (\<lambda>c. c \<noteq> CHR ''/'') (rev q)))"

section \<open>Errors, the file system and its extended attributes\<close>

datatype errno = ENOENT | EEXIST | ENOTDIR | EISDIR | ENOTEMPTY | ENODATA | EINVAL

text \<open>
  The error values the engine returns: the three \<open>errtypes\<close> it constructs, the
  \<open>*os.PathError\<close> of a failed system call (its path and errno), and any other error
  (\<open>fmt.Errorf\<close>, a wrapped error, the error of a collaborator).
\<close>

datatype error =
    NotFound string
  | PermissionDenied string
  | InternalError string
  | PathError string errno
  | OtherError string

text \<open>
  An entry of the POSIX tree: a directory or a regular file with its bytes, its
  modification time and its extended attributes.  An instant is represented by its
  RFC3339Nano rendering in UTC, the form in which the engine stores and compares it.
\<close>

record inode =
  isDir :: bool
  content :: string
  modTime :: string
  xattrs :: "(string \<times> string) list"

type_synonym filesys = "(string \<times> inode) list"

definition rootDir :: inode where
  "rootDir = \<lparr>isDir = True, content = [], modTime = [], xattrs = []\<rparr>"

text \<open>\<open>os.Stat\<close>; the root directory always exists.\<close>

definition osStat :: "filesys \<Rightarrow> string \<Rightarrow> error + inode" where
  "osStat fs p =
     (if p = ''/'' then Inr rootDir
      else (case map_of fs p of None \<Rightarrow> Inl (PathError p ENOENT) | Some i \<Rightarrow> Inr i))"

definition exists :: "filesys \<Rightarrow> string \<Rightarrow> bool" where
  "exists fs p = (case osStat fs p of Inl _ \<Rightarrow> False | Inr _ \<Rightarrow> True)"

text \<open>\<open>under p q\<close>: \<open>q\<close> is \<open>p\<close> or lies in the subtree below \<open>p\<close>.\<close>

definition under :: "string \<Rightarrow> string \<Rightarrow> bool" where
  "under p q = (q = p \<or> HasPrefix q (p @ ''/''))"

definition hasChildren :: "filesys \<Rightarrow> string \<Rightarrow> bool" where
  "hasChildren fs p = (filter (\<lambda>(q, _). q \<noteq> p \<and> under p q) fs \<noteq> [])"

text \<open>\<open>os.RemoveAll\<close>: removes the path and everything below it; a missing path is no error.\<close>

definition RemoveAll :: "filesys \<Rightarrow> string \<Rightarrow> filesys" where
  "RemoveAll fs p = filter (\<lambda>(q, _). \<not> under p q) fs"

text \<open>\<open>os.Remove\<close>: removes a file or an empty directory.\<close>

definition Remove :: "filesys \<Rightarrow> string \<Rightarrow> error + filesys" where
  "Remove fs p =
     (case map_of fs p of
        None \<Rightarrow> Inl (PathError p ENOENT)
      | Some i \<Rightarrow>
          if isDir i \<and> hasChildren fs p then Inl (PathError p ENOTEMPTY)
          else Inr (AList.delete p fs))"

text \<open>\<open>os.Rename\<close>, with the checks of rename(2); a directory moves with its subtree.\<close>

definition moveTree :: "filesys \<Rightarrow> string \<Rightarrow> string \<Rightarrow> filesys" where
  "moveTree fs old new =
     map (\<lambda>(x, i). if under old x then (new @ drop (length old) x, i) else (x, i))
       (filter (\<lambda>(x, _). \<not> under new x) fs)"

definition Rename :: "filesys \<Rightarrow> string \<Rightarrow> string \<Rightarrow> error + filesys" where
  "Rename fs old new =
     (case map_of fs old of
        None \<Rightarrow> Inl (PathError old ENOENT)
      | Some i \<Rightarrow>
          (case osStat fs (Dir new) of
             Inl e \<Rightarrow> Inl (PathError new ENOENT)
           | Inr d \<Rightarrow>
               if \<not> isDir d then Inl (PathError new ENOTDIR)
               else if old = new then Inr fs
               else if under old new then Inl (PathError new EINVAL)
               else (case map_of fs new of
                       None \<Rightarrow> Inr (moveTree fs old new)
                     | Some j \<Rightarrow>
                         if isDir j \<and> \<not> isDir i then Inl (PathError new EISDIR)
                         else if isDir i \<and> \<not> isDir j then Inl (PathError new ENOTDIR)
                         else if isDir j \<and> hasChildren fs new
                           then Inl (PathError new ENOTEMPTY)
                         else Inr (moveTree fs old new))))"

text \<open>The proper ancestors of a cleaned absolute path and the path itself, top down.\<close>

fun pathChain :: "string \<Rightarrow> string list \<Rightarrow> string list" where
  "pathChain pre [] = []"
| "pathChain pre (c # cs) = (pre @ ''/'' @ c) # pathChain (pre @ ''/'' @ c) cs"

definition chainOf :: "string \<Rightarrow> string list" where
  "chainOf p = pathChain [] (cleanComps True [] (splitOn CHR ''/'' p))"

definition newDir :: "string \<Rightarrow> inode" where
  "newDir t = \<lparr>isDir = True, content = [], modTime = t, xattrs = []\<rparr>"

text \<open>\<open>os.MkdirAll\<close>: creates the missing directories of the chain; a file in the way fails.\<close>

fun mkdirChain :: "string \<Rightarrow> filesys \<Rightarrow> string list \<Rightarrow> error + filesys" where
  "mkdirChain t fs [] = Inr fs"
| "mkdirChain t fs (p # ps) =
     (case map_of fs p of
        None \<Rightarrow> mkdirChain t (fs @ [(p, newDir t)]) ps
      | Some i \<Rightarrow> if isDir i then mkdirChain t fs ps else Inl (PathError p ENOTDIR))"

definition MkdirAll :: "string \<Rightarrow> filesys \<Rightarrow> string \<Rightarrow> error + filesys" where
  "MkdirAll t fs p = mkdirChain t fs (chainOf p)"

text \<open>\<open>os.WriteFile\<close> and \<open>os.ReadFile\<close>.\<close>

definition WriteFile :: "string \<Rightarrow> filesys \<Rightarrow> string \<Rightarrow> string \<Rightarrow> error + filesys" where
  "WriteFile t fs p c =
     (case osStat fs (Dir p) of
        Inl e \<Rightarrow> Inl (PathError p ENOENT)
      | Inr d \<Rightarrow>
          if \<not> isDir d then Inl (PathError p ENOTDIR)
          else (case map_of fs p of
                  None \<Rightarrow>
                    Inr (fs @ [(p, \<lparr>isDir = False, content = c, modTime = t, xattrs = []\<rparr>)])
                | Some i \<Rightarrow>
                    if isDir i then Inl (PathError p EISDIR)
                    else Inr (AList.update p (i\<lparr>content := c, modTime := t\<rparr>) fs)))"

definition ReadFile :: "filesys \<Rightarrow> string \<Rightarrow> error + string" where
  "ReadFile fs p =
     (case map_of fs p of
        None \<Rightarrow> Inl (PathError p ENOENT)
      | Some i \<Rightarrow> if isDir i then Inl (PathError p EISDIR) else Inr (content i))"



text \<open>\<open>xattr.Get\<close> and \<open>xattr.Set\<close> on a path.\<close>

definition xattrGet :: "filesys \<Rightarrow> string \<Rightarrow> string \<Rightarrow> error + string" where
  "xattrGet fs p a =
     (case map_of fs p of
        None \<Rightarrow> Inl (PathError p ENOENT)
      | Some i \<Rightarrow> (case map_of (xattrs i) a of
                     None \<Rightarrow> Inl (PathError p ENODATA)
                   | Some v \<Rightarrow> Inr v))"

definition xattrSet :: "filesys \<Rightarrow> string \<Rightarrow> string \<Rightarrow> string \<Rightarrow> error + filesys" where
  "xattrSet fs p a v =
     (case map_of fs p of
        None \<Rightarrow> Inl (PathError p ENOENT)
      | Some i \<Rightarrow> Inr (AList.update p (i\<lparr>xattrs := AList.update a v (xattrs i)\<rparr>) fs))"

text \<open>\<open>metadata.IsAttrUnset\<close>: the error of reading an attribute that is not set.\<close>

fun IsAttrUnset :: "error \<Rightarrow> bool" where
  "IsAttrUnset (PathError p ENODATA) = True"
| "IsAttrUnset _ = False"

section \<open>Nodes, references, permissions and the lookup\<close>

text \<open>
  The attribute names of the \<open>prefixes\<close> package.
  Modelled from the spec: the package is not part of the sources; the names are those of
  the specification's xattr namespace (\<open>user.oc.\<close>).
\<close>

definition OcPrefix :: string where "OcPrefix = ''user.oc.''"
definition IDAttr :: string where "IDAttr = ''user.oc.id''"
definition ParentidAttr :: string where "ParentidAttr = ''user.oc.parentid''"
definition NameAttr :: string where "NameAttr = ''user.oc.name''"
definition TypeAttr :: string where "TypeAttr = ''user.oc.type''"
definition BlobIDAttr :: string where "BlobIDAttr = ''user.oc.blobid''"
definition BlobsizeAttr :: string where "BlobsizeAttr = ''user.oc.blobsize''"
definition MTimeAttr :: string where "MTimeAttr = ''user.oc.mtime''"
definition ChecksumPrefix :: string where "ChecksumPrefix = ''user.oc.cs.''"
definition TreesizeAttr :: string where "TreesizeAttr = ''user.oc.treesize''"
definition PropagationAttr :: string where "PropagationAttr = ''user.oc.propagation''"
definition dirtyFlag :: string where "dirtyFlag = ''user.oc.dirty''"
definition SpaceIDAttr :: string where "SpaceIDAttr = ''user.oc.space.id''"
definition RevisionIDDelimiter :: string where "RevisionIDDelimiter = ''.REV.''"

text \<open>
  The state the engine works on: the POSIX tree and the two directions of the id cache
  (\<open>(spaceID, id)\<close> to path, and path to \<open>(spaceID, id)\<close>).
\<close>

record world =
  files :: filesys
  idcache :: "((string \<times> string) \<times> string) list"
  pathcache :: "(string \<times> (string \<times> string)) list"

text \<open>The fields of \<open>node.Node\<close> that the operations below read.\<close>

record Node =
  SpaceID :: string
  ID :: string
  ParentID :: string
  Name :: string
  Blobsize :: int
  Exists :: bool

text \<open>A \<open>provider.Reference\<close>: the resource id (space id, opaque id) and a path.\<close>

record Reference =
  SpaceId :: string
  OpaqueId :: string
  Path :: string

text \<open>The flags of \<open>provider.ResourcePermissions\<close> that the operations test.\<close>

record ResourcePermissions =
  Stat :: bool
  ListFileVersions :: bool
  InitiateFileDownload :: bool
  RestoreFileVersion :: bool
  ListRecycle_p :: bool
  PurgeRecycle :: bool

text \<open>The fields of \<open>provider.ResourceInfo\<close> that a revision download overwrites.\<close>

record ResourceInfo =
  riInfo :: string
  riSize :: int
  riMtime :: string
  riEtag :: string

text \<open>A \<open>provider.FileVersion\<close>.\<close>

record FileVersion =
  Key :: string
  Mtime :: string
  Size :: int
  Etag :: string

text \<open>
  The metadata and file operations of a revision restore can fail for reasons outside
  the modelled state (an I/O error); \<open>ioFails\<close> below says which of them do.
\<close>

datatype iostep =
    StepCopyToRevision
  | StepChtimes
  | StepCopyToNode
  | StepSetMTime
  | StepReadBlobsize

text \<open>
  The collaborators the operations call through interfaces or through packages that
  are not part of the sources; each is a parameter of the model.
\<close>

record deps =
  AssemblePermissions :: "Node \<Rightarrow> error + ResourcePermissions"
  AssembleTrashPermissions :: "Node \<Rightarrow> error + ResourcePermissions"
  NodeFromResource :: "world \<Rightarrow> Reference \<Rightarrow> error + Node"
  NodeFromID :: "world \<Rightarrow> string \<Rightarrow> string \<Rightarrow> error + Node"
  ReadNode :: "world \<Rightarrow> string \<Rightarrow> string \<Rightarrow> error + Node"
  FormatReference :: "Reference \<Rightarrow> string"
  IsMetaFile :: "string \<Rightarrow> bool"
  CalculateEtag :: "string \<Rightarrow> string \<Rightarrow> error + string"
  DeleteBlob :: "Node \<Rightarrow> world \<Rightarrow> error option \<times> world"
  ReadBlob :: "Node \<Rightarrow> world \<Rightarrow> error + string"
  AsResourceInfo :: "Node \<Rightarrow> ResourcePermissions \<Rightarrow> error + ResourceInfo"
  timeParse :: "string \<Rightarrow> string option"
  parseDeletionDate :: "string \<Rightarrow> string option"
  CheckLock :: "Node \<Rightarrow> world \<Rightarrow> error option"
  GetMTime :: "Node \<Rightarrow> world \<Rightarrow> error + string"
  Propagate :: "Node \<Rightarrow> int \<Rightarrow> world \<Rightarrow> error option \<times> world"
  ioFails :: "iostep \<Rightarrow> bool"
  CalculateChecksums :: "string \<Rightarrow> string \<times> string \<times> string"
  uuidOf :: "nat \<Rightarrow> string"
  ScopeUserByIds :: "string \<Rightarrow> error option"
  isIndex :: "string \<Rightarrow> bool"
  isTrash :: "string \<Rightarrow> bool"
  isUpload :: "string \<Rightarrow> bool"
  isInternal :: "string \<Rightarrow> bool"
  isLockFile :: "string \<Rightarrow> bool"

text \<open>
  \<open>Lookup.InternalPath\<close>.
  Modelled from the spec: the lookup is not part of the sources.  For the POSIX driver
  the internal path of an id is its cached path (empty when the id is not cached), and
  the path of a revision id \<open>id.REV.ts\<close> is the node's path followed by \<open>.REV.ts\<close>.
\<close>

definition cachedPath :: "world \<Rightarrow> string \<Rightarrow> string \<Rightarrow> string" where
  "cachedPath w sid nid = (case map_of (idcache w) (sid, nid) of None \<Rightarrow> [] | Some p \<Rightarrow> p)"

definition InternalPath :: "world \<Rightarrow> string \<Rightarrow> string \<Rightarrow> string" where
  "InternalPath w sid nid =
     (case splitFirst RevisionIDDelimiter nid of
        None \<Rightarrow> cachedPath w sid nid
      | Some (base, ts) \<Rightarrow> cachedPath w sid base @ RevisionIDDelimiter @ ts)"

text \<open>
  \<open>Lookup.VersionPath\<close>.
  Modelled from the spec: \<open>versionPath(spaceId, nodeId, timestamp)\<close> is
  \<open><internalPath>.REV.<timestamp>\<close>.
\<close>

definition VersionPath :: "world \<Rightarrow> string \<Rightarrow> string \<Rightarrow> string \<Rightarrow> string" where
  "VersionPath w sid nid version = InternalPath w sid nid @ RevisionIDDelimiter @ version"

definition nodePath :: "world \<Rightarrow> Node \<Rightarrow> string" where
  "nodePath w n = InternalPath w (SpaceID n) (ID n)"

section \<open>The trash bin: purge and empty\<close>

text \<open>\<open>trashRootForNode\<close>: the \<open>.Trash\<close> directory of the node's space root.\<close>

definition trashRootForNode :: "world \<Rightarrow> Node \<Rightarrow> string" where
  "trashRootForNode w n = Join [InternalPath w (SpaceID n) (SpaceID n), ''.Trash'']"

text \<open>
  An operation that returns only an error is a function to the error (\<open>None\<close> for
  \<open>nil\<close>) and the state it leaves.
\<close>

definition PurgeRecycleItem ::
  "deps \<Rightarrow> world \<Rightarrow> Reference \<Rightarrow> string \<Rightarrow> string \<Rightarrow> error option \<times> world" where
  "PurgeRecycleItem d w ref key relativePath =
     (case NodeFromResource d w ref of
        Inl e \<Rightarrow> (Some e, w)
      | Inr n \<Rightarrow>
          (case AssembleTrashPermissions d n of
             Inl e \<Rightarrow> (Some e, w)
           | Inr rp \<Rightarrow>
               if \<not> PurgeRecycle rp then
                 (if Stat rp then (Some (PermissionDenied key), w)
                  else (Some (NotFound key), w))
               else
                 let trashRoot = trashRootForNode w n;
                     fs1 = RemoveAll (files w)
                             (Clean (Join [trashRoot, ''files'', key @ ''.trashitem'',
                                           relativePath]));
                     cleanPath = Clean relativePath
                 in if cleanPath = ''.'' \<or> cleanPath = ''/'' then
                      (case Remove fs1 (Join [trashRoot, ''info'', key @ ''.trashinfo'']) of
                         Inl e \<Rightarrow> (Some e, w\<lparr>files := fs1\<rparr>)
                       | Inr fs2 \<Rightarrow> (None, w\<lparr>files := fs2\<rparr>))
                    else (None, w\<lparr>files := fs1\<rparr>)))"

definition EmptyRecycle :: "deps \<Rightarrow> world \<Rightarrow> Reference \<Rightarrow> error option \<times> world" where
  "EmptyRecycle d w ref =
     (case NodeFromResource d w ref of
        Inl e \<Rightarrow> (Some e, w)
      | Inr n \<Rightarrow>
          (case AssembleTrashPermissions d n of
             Inl e \<Rightarrow> (Some e, w)
           | Inr rp \<Rightarrow>
               if \<not> ListRecycle_p rp \<and> \<not> PurgeRecycle rp then
                 (if Stat rp then (Some (PermissionDenied (ID n)), w)
                  else (Some (NotFound (ID n)), w))
               else
                 let trashRoot = trashRootForNode w n;
                     fs1 = RemoveAll (files w) (Clean (Join [trashRoot, ''files'']));
                     fs2 = RemoveAll fs1 (Clean (Join [trashRoot, ''info'']))
                 in (None, w\<lparr>files := fs2\<rparr>)))"

section \<open>Metadata of a path\<close>

text \<open>\<open>strconv.ParseInt(s, 10, 64)\<close>: an optional sign, then decimal digits, within 64 bits.\<close>

definition digitVal :: "char \<Rightarrow> nat option" where
  "digitVal c =
     (let k = of_char c :: nat in if 48 \<le> k \<and> k \<le> 57 then Some (k - 48) else None)"

fun parseDigits :: "nat \<Rightarrow> string \<Rightarrow> nat option" where
  "parseDigits acc [] = Some acc"
| "parseDigits acc (c # cs) =
     (case digitVal c of None \<Rightarrow> None | Some k \<Rightarrow> parseDigits (10 * acc + k) cs)"

definition ParseInt :: "string \<Rightarrow> int option" where
  "ParseInt s =
     (let neg = HasPrefix s ''-'';
          ds = (if neg \<or> HasPrefix s ''+'' then drop 1 s else s)
      in if ds = [] then None
         else (case parseDigits 0 ds of
                 None \<Rightarrow> None
               | Some k \<Rightarrow>
                   let v = (if neg then - int k else int k)
                   in if - (2 ^ 63) \<le> v \<and> v < 2 ^ 63 then Some v else None))"

text \<open>
  The metadata backend keeps the attributes of a node as extended attributes of its path.
  Modelled from the spec: the backend (\<open>Get\<close>, \<open>Set\<close>, \<open>SetMultiple\<close>, \<open>All\<close>, \<open>Purge\<close>,
  \<open>IdentifyPath\<close>, \<open>GetInt64\<close>, \<open>LockfilePath\<close>, \<open>MetadataPath\<close>) is not part of the
  sources; it reads, writes and purges the \<open>user.oc.\<close> attributes of a path.
\<close>

definition mdAll :: "filesys \<Rightarrow> string \<Rightarrow> error + (string \<times> string) list" where
  "mdAll fs p =
     (case map_of fs p of
        None \<Rightarrow> Inl (PathError p ENOENT)
      | Some i \<Rightarrow> Inr (filter (\<lambda>(a, _). HasPrefix a OcPrefix) (xattrs i)))"

definition mdGet :: "filesys \<Rightarrow> string \<Rightarrow> string \<Rightarrow> error + string" where
  "mdGet fs p a = xattrGet fs p a"

definition mdSet :: "filesys \<Rightarrow> string \<Rightarrow> string \<Rightarrow> string \<Rightarrow> error + filesys" where
  "mdSet fs p a v = xattrSet fs p a v"

fun setAttrs :: "(string \<times> string) list \<Rightarrow> (string \<times> string) list \<Rightarrow> (string \<times> string) list" where
  "setAttrs xs [] = xs"
| "setAttrs xs ((a, v) # avs) = setAttrs (AList.update a v xs) avs"

definition mdSetMultiple ::
  "filesys \<Rightarrow> string \<Rightarrow> (string \<times> string) list \<Rightarrow> error + filesys" where
  "mdSetMultiple fs p avs =
     (case map_of fs p of
        None \<Rightarrow> Inl (PathError p ENOENT)
      | Some i \<Rightarrow> Inr (AList.update p (i\<lparr>xattrs := setAttrs (xattrs i) avs\<rparr>) fs))"

definition mdGetInt64 :: "filesys \<Rightarrow> string \<Rightarrow> string \<Rightarrow> error + int" where
  "mdGetInt64 fs p a =
     (case mdGet fs p a of
        Inl e \<Rightarrow> Inl e
      | Inr v \<Rightarrow> (case ParseInt v of
                     None \<Rightarrow> Inl (OtherError ''invalid integer'')
                   | Some k \<Rightarrow> Inr k))"

text \<open>
  \<open>Purge\<close> removes the metadata of a path; a path that does not exist has none, and the
  empty path names no file.
\<close>

definition mdPurge :: "filesys \<Rightarrow> string \<Rightarrow> filesys" where
  "mdPurge fs p =
     (case (if p = [] then None else map_of fs p) of
        None \<Rightarrow> fs
      | Some i \<Rightarrow>
          AList.update p (i\<lparr>xattrs := filter (\<lambda>(a, _). \<not> HasPrefix a OcPrefix) (xattrs i)\<rparr>) fs)"

definition LockfilePath :: "string \<Rightarrow> string" where
  "LockfilePath p = p @ ''.mlock''"

definition MetadataPath :: "string \<Rightarrow> string" where
  "MetadataPath p = p"

text \<open>
  \<open>Lookup.ReadBlobIDAndSizeAttr\<close>: the blob size recorded on a path, zero with the error.
  Modelled from the spec: the lookup is not part of the sources.
\<close>

definition ReadBlobIDAndSizeAttr :: "filesys \<Rightarrow> string \<Rightarrow> int \<times> error option" where
  "ReadBlobIDAndSizeAttr fs p =
     (case mdGetInt64 fs p BlobsizeAttr of
        Inl e \<Rightarrow> (0, Some (OtherError ''error reading blobsize xattr''))
      | Inr k \<Rightarrow> (k, None))"

section \<open>Revisions: list, download, delete\<close>

text \<open>
  \<open>filepath.Glob\<close> of a pattern \<open>pre*\<close>: the paths in the directory of \<open>pre\<close> that
  extend \<open>pre\<close> by characters other than the separator, sorted.
\<close>

definition globStar :: "filesys \<Rightarrow> string \<Rightarrow> string list" where
  "globStar fs pre =
     sort (map fst (filter (\<lambda>(q, _). HasPrefix q pre \<and>
                                    CHR ''/'' \<notin> set (drop (length pre) q)) fs))"

definition uint64 :: "int \<Rightarrow> int" where
  "uint64 k = k mod 2 ^ 64"

text \<open>The loop of \<open>ListRevisions\<close> over the globbed items.\<close>

fun listItems :: "deps \<Rightarrow> world \<Rightarrow> Node \<Rightarrow> FileVersion list \<Rightarrow> string list
    \<Rightarrow> error + FileVersion list" where
  "listItems d w n acc [] = Inr acc"
| "listItems d w n acc (item # items) =
     (if IsMetaFile d item \<or> HasSuffix item ''.mlock'' then listItems d w n acc items
      else (case osStat (files w) item of
              Inl e \<Rightarrow> listItems d w n acc items
            | Inr fi \<Rightarrow>
                (case splitFirst RevisionIDDelimiter (Base item) of
                   None \<Rightarrow> listItems d w n acc items
                 | Some (p0, p1) \<Rightarrow>
                     let mtime = modTime fi;
                         blobSize = fst (ReadBlobIDAndSizeAttr (files w) item)
                     in (case CalculateEtag d (ID n) mtime of
                           Inl e \<Rightarrow> Inl (OtherError ''error calculating etag'')
                         | Inr etag \<Rightarrow>
                             listItems d w n
                               (acc @ [\<lparr>Key = ID n @ RevisionIDDelimiter @ p1, Mtime = mtime,
                                        Size = uint64 blobSize, Etag = etag\<rparr>])
                               items))))"

definition ListRevisions :: "deps \<Rightarrow> world \<Rightarrow> Reference \<Rightarrow> error + FileVersion list" where
  "ListRevisions d w ref =
     (case NodeFromResource d w ref of
        Inl e \<Rightarrow> Inl e
      | Inr n \<Rightarrow>
          if \<not> Exists n then Inl (NotFound (Join [ParentID n, Name n]))
          else (case AssemblePermissions d n of
                  Inl e \<Rightarrow> Inl e
                | Inr rp \<Rightarrow>
                    if \<not> ListFileVersions rp then
                      (if Stat rp then Inl (PermissionDenied (FormatReference d ref))
                       else Inl (NotFound (FormatReference d ref)))
                    else listItems d w n []
                           (globStar (files w) (VersionPath w (SpaceID n) (ID n) []))))"

text \<open>
  \<open>DownloadRevision\<close> returns the resource info and, when \<open>openReaderFunc\<close> asks for it,
  the bytes of the revision's blob.
\<close>

definition DownloadRevision ::
  "deps \<Rightarrow> world \<Rightarrow> Reference \<Rightarrow> string \<Rightarrow> (ResourceInfo \<Rightarrow> bool)
    \<Rightarrow> error + (ResourceInfo \<times> string option)" where
  "DownloadRevision d w ref revisionKey openReaderFunc =
     (case splitFirst RevisionIDDelimiter revisionKey of
        None \<Rightarrow> Inl (NotFound revisionKey)
      | Some (kp0, kp1) \<Rightarrow>
          (case ReadNode d w (SpaceId ref) kp0 of
             Inl e \<Rightarrow> Inl e
           | Inr n \<Rightarrow>
               if \<not> Exists n then Inl (NotFound (Join [ParentID n, Name n]))
               else (case AssemblePermissions d n of
                       Inl e \<Rightarrow> Inl e
                     | Inr rp \<Rightarrow>
                         if \<not> ListFileVersions rp \<or> \<not> InitiateFileDownload rp then
                           (if Stat rp then Inl (PermissionDenied (FormatReference d ref))
                            else Inl (NotFound (FormatReference d ref)))
                         else
                           let contentPath = InternalPath w (SpaceId ref) revisionKey
                           in (case ReadBlobIDAndSizeAttr (files w) contentPath of
                                 (_, Some e) \<Rightarrow>
                                   Inl (OtherError ''could not read blob id and size'')
                               | (blobsize, None) \<Rightarrow>
                                   let revisionNode =
                                         \<lparr>SpaceID = SpaceId ref, ID = revisionKey,
                                          ParentID = ParentID n, Name = Name n,
                                          Blobsize = blobsize, Exists = False\<rparr>
                                   in (case AsResourceInfo d n rp of
                                         Inl e \<Rightarrow> Inl e
                                       | Inr ri \<Rightarrow>
                                           (case timeParse d kp1 of
                                              None \<Rightarrow> Inl (OtherError ''could not parse mtime'')
                                            | Some mtime \<Rightarrow>
                                                (case CalculateEtag d (ID n) mtime of
                                                   Inl e \<Rightarrow>
                                                     Inl (OtherError ''error calculating etag'')
                                                 | Inr etag \<Rightarrow>
                                                     let ri' = ri\<lparr>riSize := uint64 blobsize,
                                                                  riMtime := mtime,
                                                                  riEtag := etag\<rparr>
                                                     in if openReaderFunc ri' then
                                                          (case ReadBlob d revisionNode w of
                                                             Inl e \<Rightarrow>
                                                               Inl (OtherError
                                                                 ''could not download blob'')
                                                           | Inr r \<Rightarrow> Inr (ri', Some r))
                                                        else Inr (ri', None))))))))"

text \<open>\<open>getRevisionNode\<close>: the node of a revision key, when the caller passes \<open>hasPermission\<close>.\<close>

definition getRevisionNode ::
  "deps \<Rightarrow> world \<Rightarrow> Reference \<Rightarrow> string \<Rightarrow> (ResourcePermissions \<Rightarrow> bool) \<Rightarrow> error + Node" where
  "getRevisionNode d w ref revisionKey hasPermission =
     (case splitFirst RevisionIDDelimiter revisionKey of
        None \<Rightarrow> Inl (NotFound revisionKey)
      | Some (kp0, kp1) \<Rightarrow>
          (case ReadNode d w (SpaceId ref) kp0 of
             Inl e \<Rightarrow> Inl e
           | Inr n \<Rightarrow>
               if \<not> Exists n then Inl (NotFound (Join [ParentID n, Name n]))
               else (case AssemblePermissions d n of
                       Inl e \<Rightarrow> Inl e
                     | Inr p \<Rightarrow>
                         if \<not> hasPermission p
                         then Inl (PermissionDenied (Join [ParentID n, Name n]))
                         else Inr n)))"

definition DeleteRevision ::
  "deps \<Rightarrow> world \<Rightarrow> Reference \<Rightarrow> string \<Rightarrow> error option \<times> world" where
  "DeleteRevision d w ref revisionKey =
     (case getRevisionNode d w ref revisionKey RestoreFileVersion of
        Inl e \<Rightarrow> (Some e, w)
      | Inr n \<Rightarrow>
          DeleteBlob d n
            (w\<lparr>files := RemoveAll (files w) (InternalPath w (SpaceID n) revisionKey)\<rparr>))"

section \<open>Revisions: create and restore\<close>

text \<open>\<open>os.Create\<close>: an empty regular file, an existing file truncated.\<close>

definition Create :: "string \<Rightarrow> filesys \<Rightarrow> string \<Rightarrow> error + filesys" where
  "Create t fs p = WriteFile t fs p []"

text \<open>\<open>os.Chtimes\<close>.\<close>

definition Chtimes :: "filesys \<Rightarrow> string \<Rightarrow> string \<Rightarrow> error + filesys" where
  "Chtimes fs p t =
     (case map_of fs p of
        None \<Rightarrow> Inl (PathError p ENOENT)
      | Some i \<Rightarrow> Inr (AList.update p (i\<lparr>modTime := t\<rparr>) fs))"

text \<open>
  \<open>Lookup.CopyMetadata\<close> and \<open>CopyMetadataWithSourceLock\<close>: the attributes of the source
  that pass the filter are set on the target.
  Modelled from the spec: the lookup is not part of the sources.
\<close>

definition CopyMetadata ::
  "filesys \<Rightarrow> string \<Rightarrow> string \<Rightarrow> (string \<Rightarrow> bool) \<Rightarrow> error + filesys" where
  "CopyMetadata fs src dst keep =
     (case mdAll fs src of
        Inl e \<Rightarrow> Inl e
      | Inr attrs \<Rightarrow> mdSetMultiple fs dst (filter (\<lambda>(a, _). keep a) attrs))"

text \<open>The filter of the attributes a revision keeps, and the one copied back to the node.\<close>

definition revisionAttr :: "string \<Rightarrow> bool" where
  "revisionAttr attributeName =
     (HasPrefix attributeName ChecksumPrefix \<or> attributeName = TypeAttr \<or>
      attributeName = BlobIDAttr \<or> attributeName = BlobsizeAttr \<or>
      attributeName = MTimeAttr)"

definition restoredAttr :: "string \<Rightarrow> bool" where
  "restoredAttr attributeName =
     (HasPrefix attributeName ChecksumPrefix \<or> attributeName = TypeAttr \<or>
      attributeName = BlobIDAttr \<or> attributeName = BlobsizeAttr)"

text \<open>
  \<open>CreateRevision\<close>: the current file is opened for reading, the revision file created
  with \<open>O_CREATE|O_WRONLY|O_EXCL\<close>, the content copied and then the filtered attributes.
  The result is the version path or the error, and the state left behind.
\<close>

definition CreateRevision ::
  "string \<Rightarrow> world \<Rightarrow> Node \<Rightarrow> string \<Rightarrow> (error + string) \<times> world" where
  "CreateRevision now w n version =
     (let versionPath = VersionPath w (SpaceID n) (ID n) version
      in case MkdirAll now (files w) (Dir versionPath) of
           Inl e \<Rightarrow> (Inl e, w)
         | Inr fs1 \<Rightarrow>
             (case map_of fs1 (nodePath w n) of
                None \<Rightarrow> (Inl (PathError (nodePath w n) ENOENT), w\<lparr>files := fs1\<rparr>)
              | Some sf \<Rightarrow>
                  (case map_of fs1 versionPath of
                     Some vf \<Rightarrow> (Inl (PathError versionPath EEXIST), w\<lparr>files := fs1\<rparr>)
                   | None \<Rightarrow>
                       (case Create now fs1 versionPath of
                          Inl e \<Rightarrow> (Inl e, w\<lparr>files := fs1\<rparr>)
                        | Inr fs2 \<Rightarrow>
                            if isDir sf
                            then (Inl (PathError (nodePath w n) EISDIR), w\<lparr>files := fs2\<rparr>)
                            else (case WriteFile now fs2 versionPath (content sf) of
                                    Inl e \<Rightarrow> (Inl e, w\<lparr>files := fs2\<rparr>)
                                  | Inr fs3 \<Rightarrow>
                                      (case CopyMetadata fs3 (nodePath w n) versionPath
                                              revisionAttr of
                                         Inl e \<Rightarrow> (Inl e, w\<lparr>files := fs3\<rparr>)
                                       | Inr fs4 \<Rightarrow>
                                           (Inr versionPath, w\<lparr>files := fs4\<rparr>)))))))"

text \<open>
  The steps of \<open>RestoreRevision\<close> between the creation of the new revision file and the
  removal of the restored one: the attributes of the node are copied to the new revision,
  its times set, the attributes of the restored revision copied to the node, the node's
  mtime set to now, and the blob size of the restored revision read.  Each failure is
  returned as an \<open>InternalError\<close>, with the state reached.
\<close>

definition restoreMetadata ::
  "deps \<Rightarrow> string \<Rightarrow> filesys \<Rightarrow> string \<Rightarrow> string \<Rightarrow> string \<Rightarrow> string
    \<Rightarrow> (error + int) \<times> filesys" where
  "restoreMetadata d now fs nodeP mtime newRevisionPath restoredRevisionPath =
     (case (if ioFails d StepCopyToRevision then Inl (OtherError ''i/o error'')
            else CopyMetadata fs nodeP newRevisionPath revisionAttr) of
        Inl e \<Rightarrow> (Inl (InternalError ''failed to copy blob xattrs to version node''), fs)
      | Inr fs1 \<Rightarrow>
          (case (if ioFails d StepChtimes then Inl (OtherError ''i/o error'')
                 else Chtimes fs1 newRevisionPath mtime) of
             Inl e \<Rightarrow> (Inl (InternalError ''failed to change mtime of version node''), fs1)
           | Inr fs2 \<Rightarrow>
               (case (if ioFails d StepCopyToNode then Inl (OtherError ''i/o error'')
                      else CopyMetadata fs2 restoredRevisionPath nodeP restoredAttr) of
                  Inl e \<Rightarrow>
                    (Inl (InternalError ''failed to copy blob xattrs to old revision to node''),
                     fs2)
                | Inr fs3 \<Rightarrow>
                    (case (if ioFails d StepSetMTime then Inl (OtherError ''i/o error'')
                           else mdSetMultiple fs3 nodeP [(MTimeAttr, now)]) of
                       Inl e \<Rightarrow>
                         (Inl (InternalError ''failed to set mtime attribute on node''), fs3)
                     | Inr fs4 \<Rightarrow>
                         (case (if ioFails d StepReadBlobsize then Inl (OtherError ''i/o error'')
                                else mdGetInt64 fs4 restoredRevisionPath BlobsizeAttr) of
                            Inl e \<Rightarrow>
                              (Inl (InternalError
                                 ''failed to read blob size xattr from old revision''), fs4)
                          | Inr revisionSize \<Rightarrow> (Inr revisionSize, fs4))))))"

text \<open>\<open>os.Remove\<close> whose error is only logged.\<close>

definition removeLogged :: "filesys \<Rightarrow> string \<Rightarrow> filesys" where
  "removeLogged fs p = (case Remove fs p of Inl e \<Rightarrow> fs | Inr fs' \<Rightarrow> fs')"

text \<open>The restored revision is dropped: its file, its metadata, its lock file.\<close>

definition dropRevision :: "filesys \<Rightarrow> string \<Rightarrow> filesys" where
  "dropRevision fs restoredRevisionPath =
     mdPurge
       (removeLogged
          (removeLogged (removeLogged fs restoredRevisionPath)
             (MetadataPath restoredRevisionPath))
          (LockfilePath restoredRevisionPath))
       restoredRevisionPath"

text \<open>
  The deferred clean-up of \<open>RestoreRevision\<close>: when the operation returns an error, the
  new revision file is removed and its metadata purged.
\<close>

definition cleanupRevision :: "string \<Rightarrow> error option \<times> world \<Rightarrow> error option \<times> world" where
  "cleanupRevision newRevisionPath r =
     (case r of
        (None, w) \<Rightarrow> (None, w)
      | (Some e, w) \<Rightarrow>
          (Some e, w\<lparr>files := mdPurge (removeLogged (files w) newRevisionPath)
                                newRevisionPath\<rparr>))"

text \<open>The deferred release of the node's lock file: closed and removed.\<close>

definition releaseLock :: "string \<Rightarrow> error option \<times> world \<Rightarrow> error option \<times> world" where
  "releaseLock lockPath r =
     (case r of (e, w) \<Rightarrow> (e, w\<lparr>files := removeLogged (files w) lockPath\<rparr>))"

text \<open>\<open>lockedfile.OpenFile\<close> with \<open>O_RDWR|O_CREATE\<close>: the lock file is created if missing.\<close>

definition openLockFile :: "string \<Rightarrow> filesys \<Rightarrow> string \<Rightarrow> error + filesys" where
  "openLockFile t fs p =
     (case map_of fs p of
        Some i \<Rightarrow> if isDir i then Inl (PathError p EISDIR) else Inr fs
      | None \<Rightarrow> WriteFile t fs p [])"

definition RestoreRevision ::
  "deps \<Rightarrow> string \<Rightarrow> world \<Rightarrow> Reference \<Rightarrow> string \<Rightarrow> error option \<times> world" where
  "RestoreRevision d now w ref revisionKey =
     (case splitFirst RevisionIDDelimiter revisionKey of
        None \<Rightarrow> (Some (NotFound revisionKey), w)
      | Some (kp0, kp1) \<Rightarrow>
          (case ReadNode d w (SpaceId ref) kp0 of
             Inl e \<Rightarrow> (Some e, w)
           | Inr n \<Rightarrow>
               if \<not> Exists n then (Some (NotFound (Join [ParentID n, Name n])), w)
               else (case AssemblePermissions d n of
                       Inl e \<Rightarrow> (Some e, w)
                     | Inr rp \<Rightarrow>
                         if \<not> RestoreFileVersion rp then
                           (if Stat rp then (Some (PermissionDenied (FormatReference d ref)), w)
                            else (Some (NotFound (FormatReference d ref)), w))
                         else
                           (case CheckLock d n w of
                              Some e \<Rightarrow> (Some e, w)
                            | None \<Rightarrow>
                                (case openLockFile now (files w) (LockfilePath (nodePath w n)) of
                                   Inl e \<Rightarrow> (Some e, w)
                                 | Inr fs1 \<Rightarrow>
                                     releaseLock (LockfilePath (nodePath w n))
                                       (let nodeP = InternalPath w (SpaceId ref) kp0
                                        in case GetMTime d n (w\<lparr>files := fs1\<rparr>) of
                                             Inl e \<Rightarrow> (Some e, w\<lparr>files := fs1\<rparr>)
                                           | Inr mtime \<Rightarrow>
                                               let newRevisionPath =
                                                     InternalPath w (SpaceId ref)
                                                       (kp0 @ RevisionIDDelimiter @ mtime)
                                               in (case Create now fs1 newRevisionPath of
                                                     Inl e \<Rightarrow> (Some e, w\<lparr>files := fs1\<rparr>)
                                                   | Inr fs2 \<Rightarrow>
                                                       cleanupRevision newRevisionPath
                                                         (let restoredRevisionPath =
                                                                InternalPath w (SpaceId ref)
                                                                  revisionKey
                                                          in case restoreMetadata d now fs2 nodeP
                                                                    mtime newRevisionPath
                                                                    restoredRevisionPath of
                                                               (Inl e, fs3) \<Rightarrow>
                                                                 (Some e, w\<lparr>files := fs3\<rparr>)
                                                             | (Inr revisionSize, fs3) \<Rightarrow>
                                                                 Propagate d n
                                                                   (revisionSize - Blobsize n)
                                                                   (w\<lparr>files := dropRevision fs3
                                                                        restoredRevisionPath\<rparr>)))))))))"

section \<open>The trash bin: listing\<close>





text \<open>\<open>fi.Size()\<close> of an entry: the length of a file; a directory counts as empty.\<close>

definition fileSize :: "inode \<Rightarrow> int" where
  "fileSize i = (if isDir i then 0 else int (length (content i)))"





section \<open>The scan debouncer\<close>

text \<open>A scan request: the path, and whether to force the rescan and to recurse.\<close>

record scanItem =
  ItemPath :: string
  ForceRescan :: bool
  Recurse :: bool

text \<open>
  A timer started by \<open>time.AfterFunc\<close>: the instant at which it fires and the variables
  its function has captured (\<open>path\<close>, \<open>force\<close>, \<open>recurse\<close>).  The clock counts in units
  of the delay's resolution.
\<close>

record timer =
  deadline :: nat
  tPath :: string
  tForce :: bool
  tRecurse :: bool

record queueItem =
  item :: scanItem
  timer :: timer

text \<open>
  The debouncer: its delay, the pending and in-progress maps, and with them the clock and
  the calls of \<open>f\<close> made so far, in order.  A timer that has been stopped is no longer
  referenced by \<open>pending\<close> and never fires.
\<close>

record ScanDebouncer =
  after :: nat
  pending :: "(string \<times> queueItem) list"
  inProgress :: "string list"
  clock :: nat
  calls :: "scanItem list"

definition NewScanDebouncer :: "nat \<Rightarrow> ScanDebouncer" where
  "NewScanDebouncer d = \<lparr>after = d, pending = [], inProgress = [], clock = 0, calls = []\<rparr>"

definition Debounce :: "ScanDebouncer \<Rightarrow> scanItem \<Rightarrow> ScanDebouncer" where
  "Debounce d it =
     (if after d = 0 then d\<lparr>calls := calls d @ [it]\<rparr>
      else
        let path = ItemPath it;
            force = (case map_of (pending d) (ItemPath it) of
                       None \<Rightarrow> ForceRescan it
                     | Some q \<Rightarrow> ForceRescan it \<or> ForceRescan (item q));
            recurse = (case map_of (pending d) (ItemPath it) of
                         None \<Rightarrow> Recurse it
                       | Some q \<Rightarrow> Recurse it \<or> Recurse (item q))
        in d\<lparr>pending :=
               AList.update (ItemPath it)
                 \<lparr>item = it,
                  timer = \<lparr>deadline = clock d + after d, tPath = path, tForce = force,
                           tRecurse = recurse\<rparr>\<rparr>
                 (pending d)\<rparr>)"

text \<open>
  The function of the timer of \<open>path\<close>, run when the timer is due: it re-arms the timer
  while the path is being processed, and otherwise moves the path from pending to
  in-progress and calls \<open>f\<close> with the captured flags.
\<close>

definition timerFires :: "ScanDebouncer \<Rightarrow> string \<Rightarrow> ScanDebouncer" where
  "timerFires d path =
     (case map_of (pending d) path of
        None \<Rightarrow> d
      | Some q \<Rightarrow>
          if clock d < deadline (timer q) then d
          else if path \<in> set (inProgress d) then
            d\<lparr>pending :=
                AList.update path (q\<lparr>timer := (timer q)\<lparr>deadline := clock d + after d\<rparr>\<rparr>)
                  (pending d)\<rparr>
          else
            d\<lparr>pending := AList.delete path (pending d),
              inProgress := path # inProgress d,
              calls := calls d @ [\<lparr>ItemPath = tPath (timer q), ForceRescan = tForce (timer q),
                                   Recurse = tRecurse (timer q)\<rparr>]\<rparr>)"

text \<open>\<open>f\<close> has returned for \<open>path\<close>: the deferred \<open>inProgress.Delete\<close>.\<close>

definition scanReturns :: "ScanDebouncer \<Rightarrow> string \<Rightarrow> ScanDebouncer" where
  "scanReturns d path = d\<lparr>inProgress := removeAll path (inProgress d)\<rparr>"

definition InProgress :: "ScanDebouncer \<Rightarrow> string \<Rightarrow> bool" where
  "InProgress d path = (map_of (pending d) path \<noteq> None \<or> path \<in> set (inProgress d))"

text \<open>What happens to a debouncer, one event after the other.\<close>

datatype debounceEvent =
    Request scanItem
  | Elapse nat
  | TimerDue string
  | Returned string

fun debounceStep :: "ScanDebouncer \<Rightarrow> debounceEvent \<Rightarrow> ScanDebouncer" where
  "debounceStep d (Request it) = Debounce d it"
| "debounceStep d (Elapse k) = d\<lparr>clock := clock d + k\<rparr>"
| "debounceStep d (TimerDue path) = timerFires d path"
| "debounceStep d (Returned path) = scanReturns d path"

definition debounceRun :: "ScanDebouncer \<Rightarrow> debounceEvent list \<Rightarrow> ScanDebouncer" where
  "debounceRun d evs = foldl debounceStep d evs"

section \<open>The id cache and the identity of a path\<close>

text \<open>
  The operations of the id cache.
  Modelled from the spec: the cache is not part of the sources.  \<open>CacheID\<close> stores both
  directions, \<open>DeletePath\<close> removes only the reverse entry, \<open>DeleteByPath\<close> removes the
  whole entry pair of a path (a path that is not cached is only logged).
\<close>

definition CacheID :: "world \<Rightarrow> string \<Rightarrow> string \<Rightarrow> string \<Rightarrow> world" where
  "CacheID w sid nid p =
     w\<lparr>idcache := AList.update (sid, nid) p (idcache w),
       pathcache := AList.update p (sid, nid) (pathcache w)\<rparr>"

definition GetCachedID :: "world \<Rightarrow> string \<Rightarrow> string \<Rightarrow> string option" where
  "GetCachedID w sid nid = map_of (idcache w) (sid, nid)"

definition DeletePath :: "world \<Rightarrow> string \<Rightarrow> world" where
  "DeletePath w p = w\<lparr>pathcache := AList.delete p (pathcache w)\<rparr>"

definition DeleteByPath :: "world \<Rightarrow> string \<Rightarrow> world" where
  "DeleteByPath w p =
     (case map_of (pathcache w) p of
        None \<Rightarrow> w
      | Some ids \<Rightarrow>
          w\<lparr>idcache := AList.delete ids (idcache w),
            pathcache := AList.delete p (pathcache w)\<rparr>)"

text \<open>
  \<open>MetadataBackend.IdentifyPath\<close>: the space id, the id and the mtime recorded on a
  path, each empty when the attribute is not set.
  Modelled from the spec: the backend is not part of the sources.
\<close>

definition attrOr :: "inode \<Rightarrow> string \<Rightarrow> string" where
  "attrOr i a = (case map_of (xattrs i) a of None \<Rightarrow> [] | Some v \<Rightarrow> v)"

definition IdentifyPath :: "filesys \<Rightarrow> string \<Rightarrow> error + (string \<times> string \<times> string)" where
  "IdentifyPath fs p =
     (case map_of fs p of
        None \<Rightarrow> Inl (PathError p ENOENT)
      | Some i \<Rightarrow> Inr (attrOr i SpaceIDAttr, attrOr i IDAttr, attrOr i MTimeAttr))"

section \<open>The trash bin: move to trash and restore\<close>

text \<open>
  \<open>writeInfoFile\<close>; \<open>date\<close> is \<open>time.Now()\<close> in the layout of the file.
\<close>

definition trashHeader :: string where
  "trashHeader = ''[Trash Info]''"

definition writeInfoFile ::
  "string \<Rightarrow> string \<Rightarrow> filesys \<Rightarrow> string \<Rightarrow> string \<Rightarrow> string \<Rightarrow> error + filesys" where
  "writeInfoFile now date fs trashPath ident path =
     WriteFile now fs (Join [trashPath, ''info'', ident @ ''.trashinfo''])
       (trashHeader @ [CHR 0x0A] @ ''Path='' @ path @ [CHR 0x0A] @ ''DeletionDate='' @ date)"

text \<open>
  \<open>MoveToTrash\<close>; \<open>key\<close> is the fresh UUID.  The metadata backend purges the node at its
  internal path, which the lookup resolves when \<open>Purge\<close> runs, after the cache entry of
  the path has been deleted.
\<close>

definition MoveToTrash ::
  "string \<Rightarrow> string \<Rightarrow> string \<Rightarrow> world \<Rightarrow> Node \<Rightarrow> string \<Rightarrow> error option \<times> world" where
  "MoveToTrash now date key w n path =
     (let trashPath = trashRootForNode w n
      in case MkdirAll now (files w) (Join [trashPath, ''info'']) of
           Inl e \<Rightarrow> (Some e, w)
         | Inr fs1 \<Rightarrow>
             (case MkdirAll now fs1 (Join [trashPath, ''files'']) of
                Inl e \<Rightarrow> (Some e, w\<lparr>files := fs1\<rparr>)
              | Inr fs2 \<Rightarrow>
                  let relPath = TrimPrefix
                                  (TrimPrefix path (InternalPath w (SpaceID n) (SpaceID n)))
                                  ''/''
                  in (case writeInfoFile now date fs2 trashPath key relPath of
                        Inl e \<Rightarrow> (Some e, w\<lparr>files := fs2\<rparr>)
                      | Inr fs3 \<Rightarrow>
                          let w1 = DeleteByPath (w\<lparr>files := fs3\<rparr>) path;
                              w2 = w1\<lparr>files := mdPurge (files w1) (nodePath w1 n)\<rparr>;
                              itemTrashPath = Join [trashPath, ''files'', key @ ''.trashitem'']
                          in (case Rename (files w2) path itemTrashPath of
                                Inl e \<Rightarrow> (Some e, w2)
                              | Inr fs4 \<Rightarrow> (None, w2\<lparr>files := fs4\<rparr>)))))"

definition RestoreRecycleItem ::
  "deps \<Rightarrow> world \<Rightarrow> string \<Rightarrow> string \<Rightarrow> string \<Rightarrow> Reference \<Rightarrow> error option \<times> world" where
  "RestoreRecycleItem d w spaceID key relativePath restoreRef =
     (let trashRoot = Join [InternalPath w spaceID spaceID, ''.Trash''];
          trashPath = Clean (Join [trashRoot, ''files'', key @ ''.trashitem'', relativePath])
      in case NodeFromID d w (SpaceId restoreRef) (OpaqueId restoreRef) of
           Inl e \<Rightarrow> (Some e, w)
         | Inr restoreBaseNode \<Rightarrow>
             let restorePath = Join [nodePath w restoreBaseNode, Path restoreRef]
             in (case IdentifyPath (files w) trashPath of
                   Inl e \<Rightarrow> (Some e, w)
                 | Inr (_, ident, _) \<Rightarrow>
                     (case IdentifyPath (files w) (Dir restorePath) of
                        Inl e \<Rightarrow> (Some e, w)
                      | Inr (_, parentID, _) \<Rightarrow>
                          if length parentID = 0
                          then (Some (OtherError ''trashbin: parent id not found''), w)
                          else (case mdSet (files w) trashPath ParentidAttr parentID of
                                  Inl e \<Rightarrow> (Some e, w)
                                | Inr fs1 \<Rightarrow>
                                    (case Rename fs1 trashPath restorePath of
                                       Inl e \<Rightarrow> (Some e, w\<lparr>files := fs1\<rparr>)
                                     | Inr fs2 \<Rightarrow>
                                         let w2 = CacheID (w\<lparr>files := fs2\<rparr>) spaceID ident
                                                    restorePath
                                         in if relativePath = ''.'' \<or> relativePath = ''/'' then
                                              (case Remove (files w2)
                                                      (Join [trashRoot, ''info'',
                                                             key @ ''.trashinfo'']) of
                                                 Inl e \<Rightarrow> (Some e, w2)
                                               | Inr fs3 \<Rightarrow> (None, w2\<lparr>files := fs3\<rparr>))
                                            else (None, w2))))))"

section \<open>The tree: scanning\<close>

datatype EventAction = ActionCreate | ActionUpdate | ActionMove | ActionDelete | ActionMoveFrom

text \<open>The options the assimilation reads.\<close>

record Options =
  Root :: string
  UseSpaceGroups :: bool
  MountID :: string

text \<open>
  The events the tree publishes, with the ids and names of their references:
  \<open>ItemTrashed\<close> (space, parent, name, node), \<open>ItemMoved\<close> (space, new parent and name,
  old parent and name), and the three events of a new item (space, node).
\<close>

datatype event =
    ItemTrashed string string string string
  | ItemMoved string string string string string
  | ContainerCreated string string
  | FileTouched string string
  | UploadReady string string

text \<open>
  A goroutine the tree starts and does not wait for: a warm-up of a directory
  (\<open>root\<close>, \<open>assimilate\<close>, \<open>onlyDirty\<close>), a re-assimilation, or the replication of the
  current content of a node to a revision.
\<close>

datatype task =
    GoWarmupIDCache string bool bool
  | GoAssimilate scanItem
  | GoReplicate string string

text \<open>
  The tree: the lookup with the disk under it, the debouncer and the options, and with
  them what the operations leave behind: the goroutines started, the events published,
  the metadata locks held, the number of UUIDs minted.
\<close>

record Tree =
  lookup :: world
  scanDebouncer :: ScanDebouncer
  options :: Options
  started :: "task list"
  published :: "event list"
  held :: "string list"
  minted :: nat

text \<open>\<open>setDirty\<close> and \<open>isDirty\<close>: the \<open>user.oc.dirty\<close> attribute of a path.\<close>

definition formatBool :: "bool \<Rightarrow> string" where
  "formatBool b = (if b then ''true'' else ''false'')"

definition setDirty :: "filesys \<Rightarrow> string \<Rightarrow> bool \<Rightarrow> error + filesys" where
  "setDirty fs path dirty = xattrSet fs path dirtyFlag (formatBool dirty)"

definition isDirty :: "filesys \<Rightarrow> string \<Rightarrow> error + bool" where
  "isDirty fs path =
     (case xattrGet fs path dirtyFlag of
        Inl err \<Rightarrow> if IsAttrUnset err then Inr True else Inl err
      | Inr dirtyAttr \<Rightarrow> Inr (dirtyAttr = ''true''))"

text \<open>
  \<open>Lookup.IDsForPath\<close>: the space id and id of a path.
  Modelled from the spec: the lookup is not part of the sources.  The id cache answers;
  on a miss the attributes of the path are read, and a path without an id is \<open>NotFound\<close>.
\<close>

definition IDsForPath :: "world \<Rightarrow> string \<Rightarrow> error + (string \<times> string)" where
  "IDsForPath w p =
     (case map_of (pathcache w) p of
        Some ids \<Rightarrow> Inr ids
      | None \<Rightarrow>
          (case IdentifyPath (files w) p of
             Inl e \<Rightarrow> Inl (NotFound p)
           | Inr (sid, nid, _) \<Rightarrow> if nid = [] then Inl (NotFound p) else Inr (sid, nid)))"

text \<open>The tree with a new disk, and with a new lookup.\<close>

definition withFiles :: "Tree \<Rightarrow> filesys \<Rightarrow> Tree" where
  "withFiles t fs = t\<lparr>lookup := (lookup t)\<lparr>files := fs\<rparr>\<rparr>"

definition debounce :: "Tree \<Rightarrow> scanItem \<Rightarrow> Tree" where
  "debounce t it = t\<lparr>scanDebouncer := Debounce (scanDebouncer t) it\<rparr>"

definition PublishEvent :: "Tree \<Rightarrow> event \<Rightarrow> Tree" where
  "PublishEvent t ev = t\<lparr>published := published t @ [ev]\<rparr>"

text \<open>\<open>getNodeForPath\<close> and \<open>HandleFileDelete\<close>.\<close>

definition getNodeForPath :: "deps \<Rightarrow> world \<Rightarrow> string \<Rightarrow> error + Node" where
  "getNodeForPath d w path =
     (case IDsForPath w path of
        Inl e \<Rightarrow> Inl e
      | Inr (spaceID, nodeID) \<Rightarrow> ReadNode d w spaceID nodeID)"

definition HandleFileDelete :: "deps \<Rightarrow> Tree \<Rightarrow> string \<Rightarrow> error option \<times> Tree" where
  "HandleFileDelete d t path =
     (case IDsForPath (lookup t) path of
        Inl e \<Rightarrow> (Some e, t)
      | Inr (spaceID, ident) \<Rightarrow>
          let w1 = DeleteByPath (lookup t) path;
              w2 = w1\<lparr>files := mdPurge (files w1) (InternalPath w1 spaceID ident)\<rparr>;
              t2 = t\<lparr>lookup := w2\<rparr>
          in (case getNodeForPath d w2 (Dir path) of
                Inl e \<Rightarrow> (Some e, t2)
              | Inr parentNode \<Rightarrow>
                  (None, PublishEvent t2
                           (ItemTrashed spaceID (ID parentNode) (Base path) ident))))"

text \<open>
  \<open>Scan\<close>: the dispatch of a file system event to debounced work; \<open>isDirectory\<close> is the
  parameter \<open>isDir\<close>.
\<close>

definition Scan :: "deps \<Rightarrow> Tree \<Rightarrow> string \<Rightarrow> EventAction \<Rightarrow> bool \<Rightarrow> error option \<times> Tree" where
  "Scan d t path action isDirectory =
     (case action of
        ActionCreate \<Rightarrow>
          if \<not> isDirectory then
            (let t1 = (if \<not> InProgress (scanDebouncer t) (Dir path)
                       then debounce t \<lparr>ItemPath = path, ForceRescan = False, Recurse = False\<rparr>
                       else t)
             in case setDirty (files (lookup t1)) (Dir path) True of
                  Inl err \<Rightarrow> (Some err, t1)
                | Inr fs \<Rightarrow>
                    (None, debounce (withFiles t1 fs)
                             \<lparr>ItemPath = Dir path, ForceRescan = True, Recurse = True\<rparr>))
          else
            (case setDirty (files (lookup t)) path True of
               Inl err \<Rightarrow> (Some err, t)
             | Inr fs \<Rightarrow>
                 (None, debounce (withFiles t fs)
                          \<lparr>ItemPath = path, ForceRescan = True, Recurse = True\<rparr>))
      | ActionUpdate \<Rightarrow>
          if \<not> InProgress (scanDebouncer t) (Dir path)
          then (None, debounce t \<lparr>ItemPath = path, ForceRescan = True, Recurse = False\<rparr>)
          else (None, t)
      | ActionMove \<Rightarrow>
          (None, debounce t \<lparr>ItemPath = path, ForceRescan = isDirectory, Recurse = isDirectory\<rparr>)
      | ActionMoveFrom \<Rightarrow>
          (case setDirty (files (lookup t)) (Dir path) True of
             Inl err \<Rightarrow> (Some err, t)
           | Inr fs \<Rightarrow>
               (None, (withFiles t fs)
                        \<lparr>started := started t @ [GoWarmupIDCache (Dir path) False True]\<rparr>))
      | ActionDelete \<Rightarrow>
          (case HandleFileDelete d t path of
             (Some err, t1) \<Rightarrow> (Some err, t1)
           | (None, t1) \<Rightarrow>
               (None, debounce t1
                        \<lparr>ItemPath = Dir path, ForceRescan = True, Recurse = True\<rparr>)))"

section \<open>The tree: assimilation\<close>

text \<open>\<open>strconv.FormatInt(k, 10)\<close>, the form in which \<open>SetInt64\<close> stores a number.\<close>

function showNat :: "nat \<Rightarrow> string" where
  "showNat n =
     (if n < 10 then [char_of (48 + n)]
      else showNat (n div 10) @ [char_of (48 + n mod 10)])"
  by pat_completeness auto
termination
  by (relation "measure (\<lambda>n. n)") auto

definition FormatInt :: "int \<Rightarrow> string" where
  "FormatInt k = (if k < 0 then ''-'' @ showNat (nat (- k)) else showNat (nat k))"

text \<open>
  \<open>findSpaceId\<close>: the candidates are the path and its ancestors, as long as they lie below
  the root option.  The loop has no other exit when no candidate has a space id; \<open>fuel\<close>
  bounds its iterations, and \<open>None\<close> stands for a run that has not returned by then.
\<close>

fun findSpaceId :: "deps \<Rightarrow> Tree \<Rightarrow> nat \<Rightarrow> string \<Rightarrow> (error + string) option" where
  "findSpaceId d t 0 spaceCandidate = None"
| "findSpaceId d t (Suc fuel) spaceCandidate =
     (if HasPrefix spaceCandidate (Root (options t)) then
        (case IDsForPath (lookup t) spaceCandidate of
           Inl err \<Rightarrow> findSpaceId d t fuel (Dir spaceCandidate)
         | Inr (spaceID, _) \<Rightarrow>
             if length spaceID > 0 then
               (if UseSpaceGroups (options t) then
                  (case osStat (files (lookup t)) spaceCandidate of
                     Inl err \<Rightarrow> Some (Inl err)
                   | Inr fi \<Rightarrow>
                       (case ScopeUserByIds d spaceCandidate of
                          Some err \<Rightarrow> Some (Inl err)
                        | None \<Rightarrow> Some (Inr spaceID)))
                else Some (Inr spaceID))
             else findSpaceId d t fuel (Dir spaceCandidate))
      else Some (Inl (OtherError ''could not find space for path'')))"

text \<open>The attributes \<open>updateFile\<close> writes for an entry, in the order it sets them.\<close>

definition fileAttributes ::
  "deps \<Rightarrow> string \<Rightarrow> string \<Rightarrow> string \<Rightarrow> inode \<Rightarrow> (string \<times> string) list \<Rightarrow> string
    \<Rightarrow> (string \<times> string) list" where
  "fileAttributes d path ident parentID fi previousAttribs blobID =
     [(IDAttr, ident), (NameAttr, Base path)] @
     (if length parentID > 0 then [(ParentidAttr, parentID)] else []) @
     (if isDir fi then []
      else (case CalculateChecksums d (content fi) of
              (sha1h, md5h, adler32h) \<Rightarrow>
                [(ChecksumPrefix @ ''sha1'', sha1h), (ChecksumPrefix @ ''md5'', md5h),
                 (ChecksumPrefix @ ''adler32'', adler32h)])) @
     (if isDir fi then
        [(TypeAttr, FormatInt 2),
         (TreesizeAttr, (case map_of previousAttribs TreesizeAttr of
                           None \<Rightarrow> FormatInt 0 | Some v \<Rightarrow> v)),
         (PropagationAttr, ''1'')]
      else
        [(BlobIDAttr, blobID), (BlobsizeAttr, FormatInt (fileSize fi)),
         (TypeAttr, FormatInt 1)]) @
     [(MTimeAttr, modTime fi)]"

text \<open>
  \<open>assimilate\<close> and \<open>updateFile\<close> call each other (a file's parent is assimilated first);
  \<open>fuel\<close> bounds the depth of the calls.  Taking the metadata lock of a path that is held
  blocks: the call does not return.  In the branch of a move the entry is the one
  \<open>updateFile\<close> has just read again; the retry of \<open>updateFile\<close> after the parent has been
  assimilated is its call with one retry less.
\<close>

definition unlock :: "string \<Rightarrow> error option \<times> Tree \<Rightarrow> error option \<times> Tree" where
  "unlock path r = (case r of (e, t) \<Rightarrow> (e, t\<lparr>held := remove1 path (held t)\<rparr>))"

fun assimilate :: "deps \<Rightarrow> nat \<Rightarrow> Tree \<Rightarrow> scanItem \<Rightarrow> (error option \<times> Tree) option"
  and updateFile :: "deps \<Rightarrow> nat \<Rightarrow> nat \<Rightarrow> Tree \<Rightarrow> string \<Rightarrow> string \<Rightarrow> string
    \<Rightarrow> ((error + inode \<times> (string \<times> string) list) \<times> Tree) option" where
  "assimilate d 0 t it = None"
| "assimilate d (Suc fuel) t it =
     (case findSpaceId d t (Suc fuel) (ItemPath it) of
        None \<Rightarrow> None
      | Some (Inl err) \<Rightarrow> Some (Some err, t)
      | Some (Inr spaceID) \<Rightarrow>
          if ItemPath it \<in> set (held t) then None
          else
            map_option (unlock (ItemPath it))
              (let t1 = t\<lparr>held := ItemPath it # held t\<rparr>
               in case IdentifyPath (files (lookup t1)) (ItemPath it) of
                    Inl err \<Rightarrow> Some (Some err, t1)
                  | Inr (_, ident, mtime) \<Rightarrow>
                      if ident \<noteq> [] then
                        (let previous = GetCachedID (lookup t1) spaceID ident;
                             previousPath = (case previous of None \<Rightarrow> [] | Some p \<Rightarrow> p);
                             previousParentID =
                               (case mdGet (files (lookup t1))
                                       (InternalPath (lookup t1) spaceID ident) ParentidAttr of
                                  Inl err \<Rightarrow> []
                                | Inr v \<Rightarrow> v);
                             st = osStat (files (lookup t1)) (ItemPath it)
                         in if (case st of Inl err \<Rightarrow> False
                                | Inr fi \<Rightarrow> previousPath = ItemPath it \<and> mtime = modTime fi)
                            then Some (None, t1)
                            else if previous \<noteq> None \<and> length previousParentID > 0 \<and>
                                    previousPath \<noteq> ItemPath it then
                              (if exists (files (lookup t1)) previousPath then
                                 Some (None,
                                   (withFiles t1 (mdPurge (files (lookup t1)) (ItemPath it)))
                                     \<lparr>started := started t1 @
                                        [GoAssimilate \<lparr>ItemPath = ItemPath it, ForceRescan = True,
                                                       Recurse = False\<rparr>]\<rparr>)
                               else
                                 (case updateFile d fuel 1
                                         (t1\<lparr>lookup := CacheID (lookup t1) spaceID ident
                                                          (ItemPath it)\<rparr>)
                                         (ItemPath it) ident spaceID of
                                    None \<Rightarrow> None
                                  | Some (Inl err, t2) \<Rightarrow> Some (Some err, t2)
                                  | Some (Inr (fi, attrs), t2) \<Rightarrow>
                                      let t3 = t2\<lparr>lookup := DeletePath (lookup t2) previousPath\<rparr>;
                                          t4 = (if isDir fi
                                                then t3\<lparr>started := started t3 @
                                                       [GoWarmupIDCache (ItemPath it) False True]\<rparr>
                                                else t3);
                                          parentID = (case map_of attrs ParentidAttr of
                                                        None \<Rightarrow> [] | Some v \<Rightarrow> v)
                                      in if length parentID > 0 then
                                           Some (None, PublishEvent t4
                                             (ItemMoved spaceID parentID (Base (ItemPath it))
                                                previousParentID (Base previousPath)))
                                         else Some (None, t4)))
                            else
                              (case updateFile d fuel 1
                                      (t1\<lparr>lookup := CacheID (lookup t1) spaceID ident
                                                       (ItemPath it)\<rparr>)
                                      (ItemPath it) ident spaceID of
                                 None \<Rightarrow> None
                               | Some (Inl err, t2) \<Rightarrow> Some (Some err, t2)
                               | Some (Inr r, t2) \<Rightarrow> Some (None, t2)))
                      else
                        (let newId = uuidOf d (minted t1)
                         in case updateFile d fuel 1 (t1\<lparr>minted := Suc (minted t1)\<rparr>)
                                   (ItemPath it) newId spaceID of
                              None \<Rightarrow> None
                            | Some (Inl err, t2) \<Rightarrow> Some (Some err, t2)
                            | Some (Inr (fi, attrs), t2) \<Rightarrow>
                                Some (None, PublishEvent t2
                                  (if isDir fi then ContainerCreated spaceID newId
                                   else if fileSize fi = 0 then FileTouched spaceID newId
                                   else UploadReady spaceID newId)))))"
| "updateFile d 0 retries t path ident spaceID = None"
| "updateFile d (Suc fuel) retries t path ident spaceID =
     (let finish = (\<lambda>parentID.
            case osStat (files (lookup t)) path of
              Inl err \<Rightarrow> Some (Inl (OtherError ''failed to stat item''), t)
            | Inr fi \<Rightarrow>
                (case mdAll (files (lookup t)) path of
                   Inl err \<Rightarrow> Some (Inl (OtherError ''failed to get item attribs''), t)
                 | Inr previousAttribs \<Rightarrow>
                     let blobID = uuidOf d (minted t);
                         t1 = (if isDir fi then t else t\<lparr>minted := Suc (minted t)\<rparr>);
                         attributes = fileAttributes d path ident parentID fi previousAttribs
                                        blobID
                     in (case (if isDir fi
                               then (case map_of attributes TreesizeAttr of
                                       None \<Rightarrow> None | Some v \<Rightarrow> ParseInt v)
                               else Some (fileSize fi)) of
                           None \<Rightarrow> Some (Inl (OtherError ''failed to parse treesize''), t1)
                         | Some nodeSize \<Rightarrow>
                             let n = \<lparr>SpaceID = spaceID, ID = ident, ParentID = parentID,
                                      Name = Base path, Blobsize = nodeSize, Exists = False\<rparr>;
                                 t2 = t1\<lparr>started := started t1 @ [GoReplicate path ident]\<rparr>
                             in (case Propagate d n 0 (lookup t2) of
                                   (Some err, w3) \<Rightarrow>
                                     Some (Inl (OtherError ''failed to propagate''),
                                           t2\<lparr>lookup := w3\<rparr>)
                                 | (None, w3) \<Rightarrow>
                                     (case mdSetMultiple (files w3) path attributes of
                                        Inl err \<Rightarrow>
                                          Some (Inl (OtherError ''failed to set attributes''),
                                                t2\<lparr>lookup := w3\<rparr>)
                                      | Inr fs4 \<Rightarrow>
                                          Some (Inr (fi, attributes),
                                                t2\<lparr>lookup := CacheID (w3\<lparr>files := fs4\<rparr>)
                                                                 spaceID ident path\<rparr>))))))
      in if ident \<noteq> spaceID then
           (case IDsForPath (lookup t) (Dir path) of
              Inl err \<Rightarrow> Some (Inl (OtherError ''failed to read parent id''), t)
            | Inr (_, parentID0) \<Rightarrow>
                (case mdAll (files (lookup t)) (InternalPath (lookup t) spaceID parentID0) of
                   Inl err \<Rightarrow>
                     Some (Inl (OtherError ''failed to read parent item attributes''), t)
                 | Inr parentAttribs \<Rightarrow>
                     if length parentAttribs = 0 \<or>
                        length (case map_of parentAttribs IDAttr of None \<Rightarrow> [] | Some v \<Rightarrow> v) = 0
                     then
                       (if retries = 0 then
                          Some (Inl (OtherError
                                  ''got empty parent attribs even after assimilating''), t)
                        else
                          (case assimilate d fuel t
                                  \<lparr>ItemPath = Dir path, ForceRescan = False, Recurse = False\<rparr> of
                             None \<Rightarrow> None
                           | Some (Some err, t1) \<Rightarrow> Some (Inl err, t1)
                           | Some (None, t1) \<Rightarrow>
                               updateFile d fuel (retries - 1) t1 path ident spaceID))
                     else finish (case map_of parentAttribs IDAttr of
                                    None \<Rightarrow> [] | Some v \<Rightarrow> v)))
         else finish [])"

section \<open>The tree: warming up the id cache\<close>

text \<open>
  What the function given to \<open>filepath.Walk\<close> returns: \<open>nil\<close>, \<open>filepath.SkipDir\<close>, or
  an error that ends the walk.
\<close>

datatype walkAction = Continue | SkipDir | Abort error

text \<open>
  The variables the walk function of \<open>WarmupIDCache\<close> shares between its calls: the tree,
  the sizes accumulated per directory and the space id found last.
\<close>

record warmup =
  wTree :: Tree
  wSizes :: "(string \<times> int) list"
  wSpaceID :: string

definition addSize :: "(string \<times> int) list \<Rightarrow> string \<Rightarrow> int \<Rightarrow> (string \<times> int) list" where
  "addSize m dir k = AList.update dir ((case map_of m dir of None \<Rightarrow> 0 | Some v \<Rightarrow> v) + k) m"

text \<open>
  The loop that adds the size of a file to every directory from its own up to the root of
  the walk; it ends when it reaches the root, and \<open>fuel\<close> bounds its iterations.
\<close>

fun addSizes :: "nat \<Rightarrow> string \<Rightarrow> string \<Rightarrow> int \<Rightarrow> (string \<times> int) list
    \<Rightarrow> (string \<times> int) list option" where
  "addSizes 0 root dir k m = (if dir = root then Some m else None)"
| "addSizes (Suc fuel) root dir k m =
     (if dir = root then Some m
      else addSizes fuel root (Clean (Dir dir)) k (addSize m (Clean (Dir dir)) k))"

text \<open>\<open>scopeSpace\<close>: with space groups, the user is scoped by the group of the path.\<close>

definition scopeSpace :: "deps \<Rightarrow> Tree \<Rightarrow> string \<Rightarrow> error option" where
  "scopeSpace d t spaceCandidate =
     (if \<not> UseSpaceGroups (options t) then None
      else (case osStat (files (lookup t)) spaceCandidate of
              Inl err \<Rightarrow> Some err
            | Inr fi \<Rightarrow> ScopeUserByIds d spaceCandidate))"

text \<open>
  The search for the space of an entry that does not name it: the id cache is asked first,
  then the attributes of the candidate, whose answer ends the search even when it names no
  space.  The result is the error of \<open>scopeSpace\<close> or the space id the search ends with.
\<close>

fun warmupSpace :: "deps \<Rightarrow> Tree \<Rightarrow> nat \<Rightarrow> string \<Rightarrow> string \<Rightarrow> string
    \<Rightarrow> (error + string) option" where
  "warmupSpace d t 0 path spaceID0 spaceCandidate = None"
| "warmupSpace d t (Suc fuel) path spaceID0 spaceCandidate =
     (if HasPrefix spaceCandidate (Root (options t)) then
        (case (case IDsForPath (lookup t) spaceCandidate of
                 Inl err \<Rightarrow> None
               | Inr (sid, _) \<Rightarrow> if length sid > 0 then Some sid else None) of
           Some sid \<Rightarrow>
             (case scopeSpace d t path of Some err \<Rightarrow> Some (Inl err) | None \<Rightarrow> Some (Inr sid))
         | None \<Rightarrow>
             (case IdentifyPath (files (lookup t)) spaceCandidate of
                Inr (sid, _, _) \<Rightarrow>
                  (case scopeSpace d t path of
                     Some err \<Rightarrow> Some (Inl err)
                   | None \<Rightarrow> Some (Inr sid))
              | Inl err \<Rightarrow> warmupSpace d t fuel path [] (Dir spaceCandidate)))
      else Some (Inr spaceID0))"

text \<open>The end of every visit that is not cut short: the dirty flag of the entry is cleared.\<close>

definition clearDirty :: "warmup \<Rightarrow> string \<Rightarrow> walkAction \<times> warmup" where
  "clearDirty st path =
     (case setDirty (files (lookup (wTree st))) path False of
        Inl err \<Rightarrow> (Abort err, st)
      | Inr fs \<Rightarrow> (Continue, st\<lparr>wTree := withFiles (wTree st) fs\<rparr>))"

text \<open>
  The part of the walk function after the sizes and the dirty check: the entry is
  identified, its id cached, or it is assimilated.
\<close>

definition warmupIdentify ::
  "deps \<Rightarrow> nat \<Rightarrow> bool \<Rightarrow> string \<Rightarrow> warmup \<Rightarrow> (walkAction \<times> warmup) option" where
  "warmupIdentify d fuel assimilateItems path st =
     (let t = wTree st;
          force = \<lparr>ItemPath = path, ForceRescan = True, Recurse = False\<rparr>
      in case (case IdentifyPath (files (lookup t)) path of
                 Inl err \<Rightarrow> None
               | Inr (nodeSpaceID, ident, _) \<Rightarrow>
                   if length ident > 0 then Some (nodeSpaceID, ident) else None) of
           Some (nodeSpaceID, ident) \<Rightarrow>
             (case (if length nodeSpaceID > 0 then
                      (case scopeSpace d t path of
                         Some err \<Rightarrow> Some (Inl err)
                       | None \<Rightarrow> Some (Inr nodeSpaceID))
                    else warmupSpace d t fuel path (wSpaceID st) path) of
                None \<Rightarrow> None
              | Some (Inl err) \<Rightarrow> Some (Abort err, st)
              | Some (Inr sid) \<Rightarrow>
                  if length sid = 0 then Some (Continue, st\<lparr>wSpaceID := sid\<rparr>)
                  else
                    (case (case GetCachedID (lookup t) sid ident of
                             None \<Rightarrow> Some t
                           | Some previousPath \<Rightarrow>
                               if previousPath \<noteq> path \<and> exists (files (lookup t)) previousPath
                               then map_option snd (assimilate d fuel t force)
                               else Some t) of
                       None \<Rightarrow> None
                     | Some t1 \<Rightarrow>
                         Some (clearDirty
                                 (st\<lparr>wSpaceID := sid,
                                     wTree := t1\<lparr>lookup := CacheID (lookup t1) sid ident path\<rparr>\<rparr>)
                                 path)))
         | None \<Rightarrow>
             if assimilateItems then
               (case assimilate d fuel t force of
                  None \<Rightarrow> None
                | Some (_, t1) \<Rightarrow> Some (clearDirty (st\<lparr>wTree := t1\<rparr>) path))
             else Some (clearDirty st path))"

text \<open>
  The walk function of \<open>WarmupIDCache\<close> for an entry \<open>fi\<close> at \<open>path\<close>: index, trash and
  upload paths are skipped, internal and lock files passed over; the size of a file is
  added to its directories; with \<open>onlyDirty\<close> a directory that is not dirty is skipped.
\<close>

definition warmupVisit ::
  "deps \<Rightarrow> nat \<Rightarrow> string \<Rightarrow> bool \<Rightarrow> bool \<Rightarrow> string \<Rightarrow> inode \<Rightarrow> warmup
    \<Rightarrow> (walkAction \<times> warmup) option" where
  "warmupVisit d fuel root assimilateItems onlyDirty path fi st =
     (if isIndex d path \<or> isTrash d path \<or> isUpload d path then Some (SkipDir, st)
      else if isInternal d path \<or> isLockFile d path then Some (Continue, st)
      else if \<not> isDir fi then
        (case addSizes fuel root path (fileSize fi) (wSizes st) of
           None \<Rightarrow> None
         | Some m \<Rightarrow> warmupIdentify d fuel assimilateItems path (st\<lparr>wSizes := m\<rparr>))
      else if onlyDirty then
        (case isDirty (files (lookup (wTree st))) path of
           Inl err \<Rightarrow> Some (Abort err, st)
         | Inr dirty \<Rightarrow>
             if \<not> dirty then Some (SkipDir, st)
             else warmupIdentify d fuel assimilateItems path
                    (st\<lparr>wSizes := addSize (wSizes st) path 0\<rparr>))
      else warmupIdentify d fuel assimilateItems path st)"

text \<open>
  \<open>filepath.Walk\<close> over the entries below the root, in lexical order: the entries below a
  skipped directory are not visited, and an error ends the walk.  An entry is looked up
  when it is visited.
\<close>

definition walkOrder :: "filesys \<Rightarrow> string \<Rightarrow> string list" where
  "walkOrder fs root =
     sort_key (splitOn CHR ''/'') (filter (under root) (map fst fs))"

fun walkPaths :: "(string \<Rightarrow> inode \<Rightarrow> warmup \<Rightarrow> (walkAction \<times> warmup) option)
    \<Rightarrow> string list \<Rightarrow> warmup \<Rightarrow> string list \<Rightarrow> (error option \<times> warmup) option" where
  "walkPaths visit skipped st [] = Some (None, st)"
| "walkPaths visit skipped st (p # ps) =
     (if list_ex (\<lambda>s. under s p) skipped then walkPaths visit skipped st ps
      else (case map_of (files (lookup (wTree st))) p of
              None \<Rightarrow> walkPaths visit skipped st ps
            | Some fi \<Rightarrow>
                (case visit p fi st of
                   None \<Rightarrow> None
                 | Some (Abort err, st1) \<Rightarrow> Some (Some err, st1)
                 | Some (SkipDir, st1) \<Rightarrow>
                     walkPaths visit ((if isDir fi then p else Dir p) # skipped) st1 ps
                 | Some (Continue, st1) \<Rightarrow> walkPaths visit skipped st1 ps)))"

text \<open>
  \<open>propagateSizeDiff\<close>, and the loop that stores the accumulated sizes, directory by
  directory in the order in which the walk met them.
\<close>

definition propagateSizeDiff :: "deps \<Rightarrow> world \<Rightarrow> Node \<Rightarrow> int \<Rightarrow> error option \<times> world" where
  "propagateSizeDiff d w n k =
     (case mdGetInt64 (files w) (nodePath w n) TreesizeAttr of
        Inl err \<Rightarrow> (Some err, w)
      | Inr oldSize \<Rightarrow> Propagate d n (k - oldSize) w)"

fun storeSizes :: "deps \<Rightarrow> string \<Rightarrow> world \<Rightarrow> (string \<times> int) list \<Rightarrow> world" where
  "storeSizes d root w [] = w"
| "storeSizes d root w ((dir, k) # rest) =
     (case IDsForPath w dir of
        Inl err \<Rightarrow> storeSizes d root w rest
      | Inr (sid, ident) \<Rightarrow>
          (case ReadNode d w sid ident of
             Inl err \<Rightarrow> storeSizes d root w rest
           | Inr n \<Rightarrow>
               let w1 = (if dir = root then snd (propagateSizeDiff d w n k) else w);
                   w2 = (case mdSet (files w1) (nodePath w1 n) TreesizeAttr (FormatInt k) of
                           Inl err \<Rightarrow> w1
                         | Inr fs \<Rightarrow> w1\<lparr>files := fs\<rparr>)
               in storeSizes d root w2 rest))"

definition WarmupIDCache ::
  "deps \<Rightarrow> nat \<Rightarrow> Tree \<Rightarrow> string \<Rightarrow> bool \<Rightarrow> bool \<Rightarrow> (error option \<times> Tree) option" where
  "WarmupIDCache d fuel t root0 assimilateItems onlyDirty =
     (let root = Clean root0;
          st0 = \<lparr>wTree = t, wSizes = [], wSpaceID = []\<rparr>
      in case (if exists (files (lookup t)) root
               then walkPaths (warmupVisit d fuel root assimilateItems onlyDirty) [] st0
                      (walkOrder (files (lookup t)) root)
               else if isIndex d root \<or> isTrash d root \<or> isUpload d root \<or>
                       isInternal d root \<or> isLockFile d root
                 then Some (None, st0)
                 else Some (Some (PathError root ENOENT), st0)) of
           None \<Rightarrow> None
         | Some (err, st) \<Rightarrow>
             Some (err, (wTree st)\<lparr>lookup := storeSizes d root (lookup (wTree st)) (wSizes st)\<rparr>))"

section \<open>An example space\<close>

text \<open>
  A small space used to instantiate the theorems: the space root \<open>/s\<close> with a directory
  \<open>a\<close>, a file \<open>a/f\<close> with one revision, and one trashed file.  The collaborators answer
  from the state: a node exists when its id is cached and its path is on disk, and every
  caller is given the permissions \<open>rp\<close>.
\<close>

definition exFile :: "string \<Rightarrow> string \<Rightarrow> (string \<times> string) list \<Rightarrow> inode" where
  "exFile c t xs = \<lparr>isDir = False, content = c, modTime = t, xattrs = xs\<rparr>"

definition exDir :: "string \<Rightarrow> (string \<times> string) list \<Rightarrow> inode" where
  "exDir t xs = \<lparr>isDir = True, content = [], modTime = t, xattrs = xs\<rparr>"

definition exFiles :: filesys where
  "exFiles =
     [(''/s'', exDir ''t0'' [(''user.oc.id'', ''s'')]),
      (''/s/a'', exDir ''t0'' [(''user.oc.id'', ''a1''), (''user.oc.parentid'', ''s'')]),
      (''/s/a/f'', exFile ''HELLO'' ''t2''
         [(''user.oc.id'', ''f1''), (''user.oc.parentid'', ''a1''),
          (''user.oc.blobsize'', ''5''), (''user.oc.mtime'', ''t2''),
          (''user.oc.cs.md5'', ''m2'')]),
      (''/s/a/f.REV.t1'', exFile ''abcdefgh'' ''t1''
         [(''user.oc.blobsize'', ''8''), (''user.oc.mtime'', ''t1''),
          (''user.oc.cs.md5'', ''m1'')]),
      (''/s/.Trash'', exDir ''t0'' []),
      (''/s/.Trash/files'', exDir ''t0'' []),
      (''/s/.Trash/files/k1.trashitem'', exFile ''old'' ''t0'' []),
      (''/s/.Trash/info'', exDir ''t0'' []),
      (''/s/.Trash/info/k1.trashinfo'',
         exFile (''[Trash Info]'' @ [CHR 0x0A] @ ''Path=a/old'' @ [CHR 0x0A] @
                 ''DeletionDate=2024-01-02T03:04:05'') ''t0'' [])]"

definition exWorld :: world where
  "exWorld =
     \<lparr>files = exFiles,
      idcache = [((''s'', ''s''), ''/s''), ((''s'', ''a1''), ''/s/a''),
                 ((''s'', ''f1''), ''/s/a/f'')],
      pathcache = [(''/s'', (''s'', ''s'')), (''/s/a'', (''s'', ''a1'')),
                   (''/s/a/f'', (''s'', ''f1''))]\<rparr>"

definition exNode :: "world \<Rightarrow> string \<Rightarrow> string \<Rightarrow> Node" where
  "exNode w sid nid =
     \<lparr>SpaceID = sid, ID = nid, ParentID = ''p'', Name = Base (cachedPath w sid nid),
      Blobsize = fst (ReadBlobIDAndSizeAttr (files w) (cachedPath w sid nid)),
      Exists = (map_of (files w) (cachedPath w sid nid) \<noteq> None)\<rparr>"

definition exDeps :: "ResourcePermissions \<Rightarrow> (iostep \<Rightarrow> bool) \<Rightarrow> deps" where
  "exDeps rp fails =
     \<lparr>AssemblePermissions = (\<lambda>n. Inr rp),
      AssembleTrashPermissions = (\<lambda>n. Inr rp),
      NodeFromResource = (\<lambda>w ref. Inr (exNode w (SpaceId ref) (OpaqueId ref))),
      NodeFromID = (\<lambda>w sid nid. Inr (exNode w sid nid)),
      ReadNode = (\<lambda>w sid nid. Inr (exNode w sid nid)),
      FormatReference = (\<lambda>ref. SpaceId ref @ ''!'' @ OpaqueId ref),
      IsMetaFile = (\<lambda>p. False),
      CalculateEtag = (\<lambda>nid t. Inr (nid @ '':'' @ t)),
      DeleteBlob = (\<lambda>n w. (None, w)),
      ReadBlob = (\<lambda>n w. ReadFile (files w) (InternalPath w (SpaceID n) (ID n))),
      AsResourceInfo = (\<lambda>n rp. Inr \<lparr>riInfo = ID n, riSize = 0, riMtime = [], riEtag = []\<rparr>),
      timeParse = (\<lambda>t. Some t),
      parseDeletionDate = (\<lambda>t. if length t = 19 then Some t else None),
      CheckLock = (\<lambda>n w. None),
      GetMTime = (\<lambda>n w. mdGet (files w) (InternalPath w (SpaceID n) (ID n)) MTimeAttr),
      Propagate = (\<lambda>n k w. (None, w)),
      ioFails = fails,
      CalculateChecksums = (\<lambda>c. (''sha1:'' @ c, ''md5:'' @ c, ''adler32:'' @ c)),
      uuidOf = (\<lambda>k. replicate (Suc k) CHR ''u''),
      ScopeUserByIds = (\<lambda>p. None),
      isIndex = (\<lambda>p. False),
      isTrash = (\<lambda>p. HasSuffix p ''/.Trash''),
      isUpload = (\<lambda>p. False),
      isInternal = (\<lambda>p. False),
      isLockFile = (\<lambda>p. HasSuffix p ''.mlock'')\<rparr>"

definition exPerms :: "bool \<Rightarrow> bool \<Rightarrow> bool \<Rightarrow> ResourcePermissions" where
  "exPerms st ls pg =
     \<lparr>Stat = st, ListFileVersions = False, InitiateFileDownload = False,
      RestoreFileVersion = False, ListRecycle_p = ls, PurgeRecycle = pg\<rparr>"

definition exRef :: "string \<Rightarrow> Reference" where
  "exRef nid = \<lparr>SpaceId = ''s'', OpaqueId = nid, Path = []\<rparr>"

section \<open>Predicates and instances used in the theorems\<close>

text \<open>\<open>dirsExist fs p\<close>: the directory \<open>p\<close> and its ancestors are directories of \<open>fs\<close>.\<close>

definition dirsExist :: "filesys \<Rightarrow> string \<Rightarrow> bool" where
  "dirsExist fs p =
     list_all (\<lambda>q. case map_of fs q of None \<Rightarrow> False | Some i \<Rightarrow> isDir i) (chainOf p)"



text \<open>A request for the directory \<open>/s/a\<close> of the example space.\<close>

definition exRequest :: "bool \<Rightarrow> bool \<Rightarrow> scanItem" where
  "exRequest force recurse = \<lparr>ItemPath = ''/s/a'', ForceRescan = force, Recurse = recurse\<rparr>"

text \<open>
  \<open>nodeAt w n p\<close>: \<open>n\<close> is the node at path \<open>p\<close>, that is, the id cache binds the id of
  \<open>n\<close> and \<open>p\<close> to each other, and \<open>n\<close> is a node and not a revision of one.
\<close>

definition nodeAt :: "world \<Rightarrow> Node \<Rightarrow> string \<Rightarrow> bool" where
  "nodeAt w n p =
     (map_of (pathcache w) p = Some (SpaceID n, ID n) \<and>
      map_of (idcache w) (SpaceID n, ID n) = Some p \<and>
      splitFirst RevisionIDDelimiter (ID n) = None)"

text \<open>The example space after \<open>a/f\<close> has been trashed, and after it has been restored.\<close>

definition exTrashed :: world where
  "exTrashed =
     snd (MoveToTrash ''t5'' ''2024-01-02T03:04:05'' ''k2'' exWorld (exNode exWorld ''s'' ''f1'')
            ''/s/a/f'')"

definition exRestored :: world where
  "exRestored =
     snd (RestoreRecycleItem (exDeps (exPerms True True True) (\<lambda>_. False)) exTrashed ''s'' ''k2''
            ''/'' \<lparr>SpaceId = ''s'', OpaqueId = ''s'', Path = ''a/f''\<rparr>)"

text \<open>The tree over the example space, with a debounce delay, and its collaborators.\<close>

definition exTree :: "nat \<Rightarrow> Tree" where
  "exTree delay =
     \<lparr>lookup = exWorld, scanDebouncer = NewScanDebouncer delay,
      options = \<lparr>Root = ''/s'', UseSpaceGroups = False, MountID = ''m''\<rparr>,
      started = [], published = [], held = [], minted = 0\<rparr>"

definition exD :: deps where
  "exD = exDeps (exPerms True True True) (\<lambda>_. False)"


text \<open>A scan request for the file \<open>a/f\<close> of the example space.\<close>

definition exItem :: scanItem where
  "exItem = \<lparr>ItemPath = ''/s/a/f'', ForceRescan = False, Recurse = False\<rparr>"


definition exCleanFiles :: filesys where
  "exCleanFiles = projr (setDirty exFiles ''/s/a'' False)"

section \<open>Permission gates of the revision and trash operations\<close>

text \<open>
  A caller without the permission an operation asks for is refused.  \<open>ListRevisions\<close>,
  \<open>DownloadRevision\<close>, \<open>RestoreRevision\<close>, \<open>PurgeRecycleItem\<close> and \<open>EmptyRecycle\<close> answer
  \<open>PermissionDenied\<close> to a caller with \<open>Stat\<close> and \<open>NotFound\<close> to one without;
  \<open>getRevisionNode\<close>, and with it \<open>DeleteRevision\<close>, does not look at \<open>Stat\<close>.
\<close>

lemma getRevisionNode_denied:
  assumes "splitFirst RevisionIDDelimiter revisionKey = Some (kp0, kp1)"
    and "ReadNode d w (SpaceId ref) kp0 = Inr n" and "Exists n"
    and "AssemblePermissions d n = Inr rp" and "\<not> hasPermission rp"
  shows "getRevisionNode d w ref revisionKey hasPermission =
           Inl (PermissionDenied (Join [ParentID n, Name n]))"
  using assms by (simp add: getRevisionNode_def)

text \<open>
  Claim C1 (every permission-denying operation answers \<open>NotFound\<close> to a caller without
  \<open>Stat\<close>).  \<open>DeleteRevision\<close> does not: a caller without \<open>RestoreFileVersion\<close> is answered
  \<open>PermissionDenied\<close> whatever \<open>Stat\<close> is, also without \<open>Stat\<close>, and nothing is removed.
\<close>

theorem DeleteRevision_denied_ignores_Stat:
  assumes "splitFirst RevisionIDDelimiter revisionKey = Some (kp0, kp1)"
    and "ReadNode d w (SpaceId ref) kp0 = Inr n" and "Exists n"
    and "AssemblePermissions d n = Inr rp" and "\<not> RestoreFileVersion rp"
  shows "DeleteRevision d w ref revisionKey =
           (Some (PermissionDenied (Join [ParentID n, Name n])), w)"
  using assms by (simp add: DeleteRevision_def getRevisionNode_def)

theorem DeleteRevision_denied_ignores_Stat_witness:
  "\<not> Stat (exPerms False False False) \<and>
   DeleteRevision (exDeps (exPerms False False False) (\<lambda>_. False)) exWorld (exRef ''f1'')
     ''f1.REV.t1'' = (Some (PermissionDenied ''p/f''), exWorld)"
proof -
  let ?d = "exDeps (exPerms False False False) (\<lambda>_. False)"
  have a: "splitFirst RevisionIDDelimiter ''f1.REV.t1'' = Some (''f1'', ''t1'')" by code_simp
  have b: "ReadNode ?d exWorld (SpaceId (exRef ''f1'')) ''f1'' = Inr (exNode exWorld ''s'' ''f1'')"
    by (simp add: exDeps_def exRef_def)
  have c: "Exists (exNode exWorld ''s'' ''f1'')" by code_simp
  have e: "AssemblePermissions ?d (exNode exWorld ''s'' ''f1'') = Inr (exPerms False False False)"
    by (simp add: exDeps_def)
  have f: "\<not> RestoreFileVersion (exPerms False False False)" by (simp add: exPerms_def)
  have g: "Join [ParentID (exNode exWorld ''s'' ''f1''), Name (exNode exWorld ''s'' ''f1'')] = ''p/f''"
    by code_simp
  have h: "\<not> Stat (exPerms False False False)" by (simp add: exPerms_def)
  show ?thesis using DeleteRevision_denied_ignores_Stat [OF a b c e f] g h by simp
qed

lemma ListRevisions_denied:
  assumes "NodeFromResource d w ref = Inr n" and "Exists n"
    and "AssemblePermissions d n = Inr rp" and "\<not> ListFileVersions rp"
  shows "ListRevisions d w ref =
           (if Stat rp then Inl (PermissionDenied (FormatReference d ref))
            else Inl (NotFound (FormatReference d ref)))"
  using assms by (simp add: ListRevisions_def)

lemma DownloadRevision_denied:
  assumes "splitFirst RevisionIDDelimiter revisionKey = Some (kp0, kp1)"
    and "ReadNode d w (SpaceId ref) kp0 = Inr n" and "Exists n"
    and "AssemblePermissions d n = Inr rp"
    and "\<not> (ListFileVersions rp \<and> InitiateFileDownload rp)"
  shows "DownloadRevision d w ref revisionKey openReaderFunc =
           (if Stat rp then Inl (PermissionDenied (FormatReference d ref))
            else Inl (NotFound (FormatReference d ref)))"
  using assms by (auto simp add: DownloadRevision_def)

lemma RestoreRevision_denied:
  assumes "splitFirst RevisionIDDelimiter revisionKey = Some (kp0, kp1)"
    and "ReadNode d w (SpaceId ref) kp0 = Inr n" and "Exists n"
    and "AssemblePermissions d n = Inr rp" and "\<not> RestoreFileVersion rp"
  shows "RestoreRevision d now w ref revisionKey =
           (if Stat rp then (Some (PermissionDenied (FormatReference d ref)), w)
            else (Some (NotFound (FormatReference d ref)), w))"
  using assms by (simp add: RestoreRevision_def)

lemma PurgeRecycleItem_denied:
  assumes "NodeFromResource d w ref = Inr n"
    and "AssembleTrashPermissions d n = Inr rp" and "\<not> PurgeRecycle rp"
  shows "PurgeRecycleItem d w ref key relativePath =
           (if Stat rp then (Some (PermissionDenied key), w) else (Some (NotFound key), w))"
  using assms by (simp add: PurgeRecycleItem_def)

lemma EmptyRecycle_denied:
  assumes "NodeFromResource d w ref = Inr n"
    and "AssembleTrashPermissions d n = Inr rp"
    and "\<not> ListRecycle_p rp" and "\<not> PurgeRecycle rp"
  shows "EmptyRecycle d w ref =
           (if Stat rp then (Some (PermissionDenied (ID n)), w) else (Some (NotFound (ID n)), w))"
  using assms by (simp add: EmptyRecycle_def)

text \<open>
  Claim C2 (\<open>PurgeRecycleItem\<close> and \<open>EmptyRecycle\<close> both require \<open>PurgeRecycle\<close> and remove
  nothing without it).  \<open>PurgeRecycleItem\<close> does (\<open>PurgeRecycleItem_denied\<close>);
  \<open>EmptyRecycle\<close> refuses only a caller that has neither \<open>ListRecycle\<close> nor \<open>PurgeRecycle\<close>:
  for a caller with \<open>ListRecycle\<close> and without \<open>PurgeRecycle\<close> it removes the trash.
\<close>

theorem EmptyRecycle_ListRecycle_suffices:
  assumes "NodeFromResource d w ref = Inr n"
    and "AssembleTrashPermissions d n = Inr rp"
    and "ListRecycle_p rp" and "\<not> PurgeRecycle rp"
  shows "EmptyRecycle d w ref =
           (None, w\<lparr>files := RemoveAll (RemoveAll (files w)
                                 (Clean (Join [trashRootForNode w n, ''files''])))
                               (Clean (Join [trashRootForNode w n, ''info'']))\<rparr>)"
  using assms by (simp add: EmptyRecycle_def Let_def)

theorem EmptyRecycle_ListRecycle_suffices_witness:
  "\<not> PurgeRecycle (exPerms True True False) \<and>
   fst (EmptyRecycle (exDeps (exPerms True True False) (\<lambda>_. False)) exWorld (exRef ''s'')) = None \<and>
   map_of (files exWorld) ''/s/.Trash/files/k1.trashitem'' \<noteq> None \<and>
   map_of (files (snd (EmptyRecycle (exDeps (exPerms True True False) (\<lambda>_. False)) exWorld
       (exRef ''s'')))) ''/s/.Trash/files/k1.trashitem'' = None"
proof -
  let ?d = "exDeps (exPerms True True False) (\<lambda>_. False)"
  have a: "NodeFromResource ?d exWorld (exRef ''s'') = Inr (exNode exWorld ''s'' ''s'')"
    by (simp add: exDeps_def exRef_def)
  have b: "AssembleTrashPermissions ?d (exNode exWorld ''s'' ''s'') = Inr (exPerms True True False)"
    by (simp add: exDeps_def)
  have c: "ListRecycle_p (exPerms True True False)" "\<not> PurgeRecycle (exPerms True True False)"
    by (simp_all add: exPerms_def)
  have e: "map_of (files exWorld) ''/s/.Trash/files/k1.trashitem'' \<noteq> None" by code_simp
  have f: "map_of (RemoveAll (RemoveAll (files exWorld)
                (Clean (Join [trashRootForNode exWorld (exNode exWorld ''s'' ''s''), ''files''])))
                (Clean (Join [trashRootForNode exWorld (exNode exWorld ''s'' ''s''), ''info''])))
             ''/s/.Trash/files/k1.trashitem'' = None" by code_simp
  show ?thesis using EmptyRecycle_ListRecycle_suffices [OF a b c] c(2) e f by simp
qed

section \<open>Creating a revision whose timestamp is taken\<close>

lemma mkdirChain_existing:
  "list_all (\<lambda>q. case map_of fs q of None \<Rightarrow> False | Some i \<Rightarrow> isDir i) ps
     \<Longrightarrow> mkdirChain t fs ps = Inr fs"
  by (induction ps) (auto split: option.splits)

lemma MkdirAll_existing: "dirsExist fs p \<Longrightarrow> MkdirAll t fs p = Inr fs"
  by (simp add: MkdirAll_def dirsExist_def mkdirChain_existing)

lemma CreateRevision_existing_revision_fails:
  assumes rev: "map_of (files w) (VersionPath w (SpaceID n) (ID n) version) = Some vf"
    and dir: "dirsExist (files w) (Dir (VersionPath w (SpaceID n) (ID n) version))"
  shows "\<exists>e. CreateRevision now w n version = (Inl e, w)"
  using rev MkdirAll_existing [OF dir, of now]
  by (cases "map_of (files w) (nodePath w n)") (simp_all add: CreateRevision_def Let_def)

text \<open>
  Claim C7 (a revision file that already exists makes \<open>CreateRevision\<close> fail with
  AlreadyExists and stays unchanged).  For a node whose current file is on disk, in a
  directory that exists, the exclusive create fails with the \<open>EEXIST\<close> path error, the
  error \<open>os.IsExist\<close> recognises, and the whole state, the revision file included, is
  what it was.
\<close>

theorem CreateRevision_existing_revision:
  assumes rev: "map_of (files w) (VersionPath w (SpaceID n) (ID n) version) = Some vf"
    and cur: "map_of (files w) (nodePath w n) = Some sf"
    and dir: "dirsExist (files w) (Dir (VersionPath w (SpaceID n) (ID n) version))"
  shows "CreateRevision now w n version =
           (Inl (PathError (VersionPath w (SpaceID n) (ID n) version) EEXIST), w)"
  using rev cur MkdirAll_existing [OF dir, of now]
  by (simp add: CreateRevision_def Let_def)

theorem CreateRevision_existing_revision_witness:
  "map_of (files exWorld) ''/s/a/f.REV.t1'' \<noteq> None \<and>
   CreateRevision ''t3'' exWorld (exNode exWorld ''s'' ''f1'') ''t1'' =
     (Inl (PathError ''/s/a/f.REV.t1'' EEXIST), exWorld)"
proof -
  let ?n = "exNode exWorld ''s'' ''f1''"
  have vp: "VersionPath exWorld (SpaceID ?n) (ID ?n) ''t1'' = ''/s/a/f.REV.t1''" by code_simp
  have a: "map_of (files exWorld) (VersionPath exWorld (SpaceID ?n) (ID ?n) ''t1'') =
             Some (exFile ''abcdefgh'' ''t1'' [(''user.oc.blobsize'', ''8''),
               (''user.oc.mtime'', ''t1''), (''user.oc.cs.md5'', ''m1'')])" by code_simp
  have b: "map_of (files exWorld) (nodePath exWorld ?n) =
             Some (exFile ''HELLO'' ''t2'' [(''user.oc.id'', ''f1''), (''user.oc.parentid'', ''a1''),
               (''user.oc.blobsize'', ''5''), (''user.oc.mtime'', ''t2''),
               (''user.oc.cs.md5'', ''m2'')])" by code_simp
  have c: "dirsExist (files exWorld) (Dir (VersionPath exWorld (SpaceID ?n) (ID ?n) ''t1''))"
    by code_simp
  have e: "map_of (files exWorld) ''/s/a/f.REV.t1'' \<noteq> None" by code_simp
  show ?thesis using CreateRevision_existing_revision [OF a b c, of "''t3''"] vp e by simp
qed

section \<open>Compensation of a failed revision restore\<close>

lemma map_of_update_isDir:
  "map_of fs q = Some j \<Longrightarrow> isDir j' = isDir j \<Longrightarrow> map_of fs p = Some i \<Longrightarrow>
   \<exists>i'. map_of (AList.update q j' fs) p = Some i' \<and> isDir i' = isDir i"
  by (cases "p = q") (simp_all add: update_conv')













section \<open>Listing a trash directory that does not exist\<close>






section \<open>Coalescing of scan requests\<close>

text \<open>
  A request for a path replaces the pending entry and its timer: the new timer is due one
  full delay after the request.  The flags the timer's function captures are those of the
  request joined with those of the item it replaces.
\<close>

lemma Debounce_resets_timer:
  assumes "after d \<noteq> 0"
  shows "\<exists>q. map_of (pending (Debounce d it)) (ItemPath it) = Some q \<and>
             deadline (timer q) = clock d + after d \<and> item q = it"
  using assms by (simp add: Debounce_def Let_def update_conv')

lemma Debounce_merges_two:
  assumes "after d \<noteq> 0" and "map_of (pending d) (ItemPath a) = None"
    and "ItemPath b = ItemPath a"
  shows "map_of (pending (Debounce (Debounce d a) b)) (ItemPath a) =
           Some \<lparr>item = b,
                 timer = \<lparr>deadline = clock d + after d, tPath = ItemPath a,
                          tForce = (ForceRescan b \<or> ForceRescan a),
                          tRecurse = (Recurse b \<or> Recurse a)\<rparr>\<rparr>"
  using assms by (simp add: Debounce_def Let_def update_conv')

lemma timerFires_calls:
  assumes "map_of (pending d) path = Some q" and "deadline (timer q) \<le> clock d"
    and "path \<notin> set (inProgress d)"
  shows "calls (timerFires d path) =
           calls d @ [\<lparr>ItemPath = tPath (timer q), ForceRescan = tForce (timer q),
                       Recurse = tRecurse (timer q)\<rparr>]"
  using assms by (simp add: timerFires_def)

text \<open>
  Claim C4 (the scan executed for a path carries the disjunction of the flags of all
  coalesced requests).  The entry stored in \<open>pending\<close> keeps the request as it came, not
  the joined flags, so the next request joins its flags with those of its predecessor
  only: after three requests for one path the timer has captured the flags of the second
  and third, and a flag that only the first request had set is lost.
\<close>

theorem Debounce_third_request_forgets_first:
  assumes "after d \<noteq> 0"
    and "ItemPath b = ItemPath a" and "ItemPath c = ItemPath a"
  shows "map_of (pending (Debounce (Debounce (Debounce d a) b) c)) (ItemPath a) =
           Some \<lparr>item = c,
                 timer = \<lparr>deadline = clock d + after d, tPath = ItemPath a,
                          tForce = (ForceRescan c \<or> ForceRescan b),
                          tRecurse = (Recurse c \<or> Recurse b)\<rparr>\<rparr>"
  using assms by (simp add: Debounce_def Let_def update_conv')

theorem Debounce_third_request_forgets_first_witness:
  "tRecurse (timer (the (map_of (pending (Debounce (Debounce (Debounce (NewScanDebouncer 5)
      (exRequest True True)) (exRequest True False)) (exRequest True False))) ''/s/a'')))
     \<noteq> (Recurse (exRequest True True) \<or> Recurse (exRequest True False)
          \<or> Recurse (exRequest True False)) \<and>
   calls (debounceRun (NewScanDebouncer 5)
      [Request (exRequest True True), Request (exRequest True False),
       Request (exRequest True False), Elapse 5, TimerDue ''/s/a''])
     = [\<lparr>ItemPath = ''/s/a'', ForceRescan = True, Recurse = False\<rparr>]"
proof -
  have a: "after (NewScanDebouncer 5) \<noteq> 0" by (simp add: NewScanDebouncer_def)
  have b: "ItemPath (exRequest True False) = ItemPath (exRequest True True)"
    by (simp add: exRequest_def)
  have p: "ItemPath (exRequest True True) = ''/s/a''" by (simp add: exRequest_def)
  have r: "calls (debounceRun (NewScanDebouncer 5)
      [Request (exRequest True True), Request (exRequest True False),
       Request (exRequest True False), Elapse 5, TimerDue ''/s/a''])
     = [\<lparr>ItemPath = ''/s/a'', ForceRescan = True, Recurse = False\<rparr>]" by code_simp
  show ?thesis
    using Debounce_third_request_forgets_first [OF a b b] p r
    by (simp add: exRequest_def)
qed

section \<open>The trash round trip\<close>

text \<open>Directories that are created, files that are written and entries that are removed
  leave the other entries as they are; a rename carries an entry to its new path.\<close>

lemma mkdirChain_keeps:
  "mkdirChain t fs ps = Inr fs' \<Longrightarrow> map_of fs p = Some i \<Longrightarrow> map_of fs' p = Some i"
proof (induction ps arbitrary: fs)
  case Nil
  then show ?case by simp
next
  case (Cons q qs)
  show ?case
  proof (cases "map_of fs q")
    case None
    with Cons.prems have "mkdirChain t (fs @ [(q, newDir t)]) qs = Inr fs'" by simp
    moreover have "map_of (fs @ [(q, newDir t)]) p = Some i"
      using Cons.prems(2) by (simp add: map_add_def)
    ultimately show ?thesis by (rule Cons.IH)
  next
    case (Some j)
    with Cons.prems have "mkdirChain t fs qs = Inr fs'" by (simp split: if_splits)
    then show ?thesis using Cons.prems(2) by (rule Cons.IH)
  qed
qed

lemma MkdirAll_keeps:
  "MkdirAll t fs d = Inr fs' \<Longrightarrow> map_of fs p = Some i \<Longrightarrow> map_of fs' p = Some i"
  unfolding MkdirAll_def by (rule mkdirChain_keeps)

lemma WriteFile_keeps:
  "WriteFile t fs q c = Inr fs' \<Longrightarrow> p \<noteq> q \<Longrightarrow> map_of fs' p = map_of fs p"
  by (auto simp add: WriteFile_def update_conv' map_add_def
      split: sum.splits if_splits option.splits)

lemma under_refl: "under p p"
  by (simp add: under_def)

lemma under_drop:
  assumes "under old x" and "x \<noteq> old"
  shows "drop (length old) x \<noteq> []"
proof -
  from assms have "take (length old + 1) x = old @ ''/''"
    by (simp add: under_def HasPrefix_def)
  then have "length old + 1 \<le> length x"
    by (metis length_append length_take min.cobounded1 Nat.add_0_right add_Suc_right
        length_Cons list.size(3) One_nat_def min_def)
  then show ?thesis by simp
qed

lemma moveTree_new:
  assumes "\<not> under new old"
  shows "map_of (moveTree fs old new) new = map_of fs old"
proof (induction fs)
  case Nil
  then show ?case by (simp add: moveTree_def)
next
  case (Cons e fs)
  obtain x i where e: "e = (x, i)" by (cases e)
  have IH: "map_of (moveTree fs old new) new = map_of fs old" by (rule Cons.IH)
  show ?case
  proof (cases "under new x")
    case True
    then have "x \<noteq> old" using assms by auto
    then show ?thesis using True IH by (simp add: e moveTree_def)
  next
    case False
    then have xn: "x \<noteq> new" using under_refl by auto
    show ?thesis
    proof (cases "x = old")
      case True
      then show ?thesis using False by (simp add: e moveTree_def under_refl)
    next
      case neq: False
      show ?thesis
      proof (cases "under old x")
        case True
        then have "new @ drop (length old) x \<noteq> new" using under_drop [OF True neq] by simp
        then show ?thesis using False True neq IH by (simp add: e moveTree_def)
      next
        case nu: False
        then show ?thesis using False neq xn IH by (simp add: e moveTree_def)
      qed
    qed
  qed
qed

lemma Rename_moves:
  assumes "Rename fs old new = Inr fs'" and "\<not> under new old \<or> old = new"
  shows "map_of fs' new = map_of fs old"
proof (cases "old = new")
  case True
  then show ?thesis using assms(1)
    by (auto simp add: Rename_def split: option.splits sum.splits if_splits)
next
  case False
  then have "fs' = moveTree fs old new" using assms(1)
    by (auto simp add: Rename_def split: option.splits sum.splits if_splits)
  then show ?thesis using assms(2) False by (simp add: moveTree_new)
qed

lemma Rename_not_into_itself:
  "Rename fs old new = Inr fs' \<Longrightarrow> \<not> under old new \<or> old = new"
  by (auto simp add: Rename_def split: option.splits sum.splits if_splits)

text \<open>
  When \<open>MoveToTrash\<close> purges the metadata of the node, the cache entry of its path has
  just been deleted: the node has no internal path any more, so nothing on disk is purged
  and the attributes of the file travel with it into the trash.
\<close>

lemma Purge_of_trashed_node:
  assumes "nodeAt w n p"
  shows "mdPurge (files (DeleteByPath w p)) (nodePath (DeleteByPath w p) n) = files w"
  using assms
  by (simp add: nodeAt_def DeleteByPath_def nodePath_def InternalPath_def cachedPath_def
      mdPurge_def delete_conv')

lemma MoveToTrash_outcome:
  assumes at: "nodeAt w n p"
    and ondisk: "map_of (files w) p = Some i"
    and mv: "MoveToTrash now date key w n p = (None, w1)"
    and info: "p \<noteq> Join [trashRootForNode w n, ''info'', key @ ''.trashinfo'']"
    and out: "\<not> under (Join [trashRootForNode w n, ''files'', key @ ''.trashitem'']) p \<or>
              p = Join [trashRootForNode w n, ''files'', key @ ''.trashitem'']"
  shows "map_of (files w1) (Join [trashRootForNode w n, ''files'', key @ ''.trashitem''])
           = Some i"
    and "\<not> under p (Join [trashRootForNode w n, ''files'', key @ ''.trashitem'']) \<or>
         p = Join [trashRootForNode w n, ''files'', key @ ''.trashitem'']"
proof -
  let ?tr = "trashRootForNode w n"
  let ?item = "Join [?tr, ''files'', key @ ''.trashitem'']"
  from mv obtain fs1 fs2 fs3 fs4 where
    m1: "MkdirAll now (files w) (Join [?tr, ''info'']) = Inr fs1" and
    m2: "MkdirAll now fs1 (Join [?tr, ''files'']) = Inr fs2" and
    wi: "writeInfoFile now date fs2 ?tr key
           (TrimPrefix (TrimPrefix p (InternalPath w (SpaceID n) (SpaceID n))) ''/'') = Inr fs3" and
    rn: "Rename (mdPurge (files (DeleteByPath (w\<lparr>files := fs3\<rparr>) p))
                   (nodePath (DeleteByPath (w\<lparr>files := fs3\<rparr>) p) n)) p ?item = Inr fs4" and
    w1: "files w1 = fs4"
    by (auto simp add: MoveToTrash_def Let_def split: sum.splits)
  have at3: "nodeAt (w\<lparr>files := fs3\<rparr>) n p" using at by (simp add: nodeAt_def)
  have rn': "Rename fs3 p ?item = Inr fs4"
    using rn Purge_of_trashed_node [OF at3] by simp
  have "map_of fs2 p = Some i"
    using MkdirAll_keeps [OF m2 MkdirAll_keeps [OF m1 ondisk]] .
  then have "map_of fs3 p = Some i"
    using WriteFile_keeps [OF wi [unfolded writeInfoFile_def] info] by simp
  then show "map_of (files w1) ?item = Some i"
    using Rename_moves [OF rn' out] w1 by simp
  show "\<not> under p ?item \<or> p = ?item"
    by (rule Rename_not_into_itself [OF rn'])
qed

lemma parentid_not_id: "ParentidAttr \<noteq> IDAttr"
  by (simp add: ParentidAttr_def IDAttr_def)

lemma parentid_not_checksum: "HasPrefix a ChecksumPrefix \<Longrightarrow> a \<noteq> ParentidAttr"
  by (auto simp add: HasPrefix_def ChecksumPrefix_def ParentidAttr_def)

lemma Remove_keeps: "Remove fs q = Inr fs' \<Longrightarrow> p \<noteq> q \<Longrightarrow> map_of fs' p = map_of fs p"
  by (auto simp add: Remove_def delete_conv' split: option.splits if_splits)

text \<open>
  Claim C3 (trash round trip).  Let \<open>n\<close> be the node at \<open>p\<close>, a path other than the
  sidecar about to be written.  If \<open>MoveToTrash\<close> succeeds with key \<open>key\<close> and
  \<open>RestoreRecycleItem\<close> of the whole item, to the reference that resolves to \<open>p\<close> again,
  succeeds while the directory of \<open>p\<close> carries the id \<open>pid\<close>, then \<open>p\<close> holds an entry with
  the original content, the original id attribute, the parent id \<open>pid\<close> and the original
  checksum attributes.
\<close>

theorem trash_round_trip:
  assumes at: "nodeAt w n p"
    and ondisk: "map_of (files w) p = Some i"
    and mv: "MoveToTrash now date key w n p = (None, w1)"
    and rs: "RestoreRecycleItem d w1 (SpaceID n) key relativePath restoreRef = (None, w2)"
    and root: "Join [InternalPath w1 (SpaceID n) (SpaceID n), ''.Trash''] = trashRootForNode w n"
    and whole: "Clean (Join [trashRootForNode w n, ''files'', key @ ''.trashitem'',
                  relativePath]) = Join [trashRootForNode w n, ''files'', key @ ''.trashitem'']"
    and base: "NodeFromID d w1 (SpaceId restoreRef) (OpaqueId restoreRef) = Inr b"
    and orig: "Join [nodePath w1 b, Path restoreRef] = p"
    and info: "p \<noteq> Join [trashRootForNode w n, ''info'', key @ ''.trashinfo'']"
    and parent: "IdentifyPath (files w1) (Dir p) = Inr (ps, pid, pm)"
  shows "\<exists>i'. map_of (files w2) p = Some i' \<and>
              isDir i' = isDir i \<and> content i' = content i \<and>
              map_of (xattrs i') IDAttr = map_of (xattrs i) IDAttr \<and>
              map_of (xattrs i') ParentidAttr = Some pid \<and>
              (\<forall>a. HasPrefix a ChecksumPrefix \<longrightarrow>
                     map_of (xattrs i') a = map_of (xattrs i) a)"
proof -
  let ?tr = "trashRootForNode w n"
  let ?item = "Join [?tr, ''files'', key @ ''.trashitem'']"
  let ?info = "Join [?tr, ''info'', key @ ''.trashinfo'']"
  let ?i' = "i\<lparr>xattrs := AList.update ParentidAttr pid (xattrs i)\<rparr>"
  from rs root whole base orig parent obtain fs1 fs2 where
    st: "mdSet (files w1) ?item ParentidAttr pid = Inr fs1" and
    rn: "Rename fs1 ?item p = Inr fs2" and
    fin: "files w2 = fs2 \<or> (\<exists>fs3. Remove fs2 ?info = Inr fs3 \<and> files w2 = fs3)"
    by (auto simp add: RestoreRecycleItem_def Let_def CacheID_def
        split: sum.splits if_splits prod.splits)
  have out: "\<not> under ?item p \<or> p = ?item"
    using Rename_not_into_itself [OF rn] by auto
  have trashed: "map_of (files w1) ?item = Some i"
    by (rule MoveToTrash_outcome(1) [OF at ondisk mv info out])
  have inv: "\<not> under p ?item \<or> ?item = p"
    using MoveToTrash_outcome(2) [OF at ondisk mv info out] by auto
  have "map_of fs1 ?item = Some ?i'"
    using st trashed by (auto simp add: mdSet_def xattrSet_def update_conv')
  then have "map_of fs2 p = Some ?i'"
    using Rename_moves [OF rn inv] by simp
  then have "map_of (files w2) p = Some ?i'"
    using fin info by (auto simp add: Remove_keeps)
  moreover have "map_of (xattrs ?i') IDAttr = map_of (xattrs i) IDAttr"
    using parentid_not_id by (simp add: update_conv')
  moreover have "map_of (xattrs ?i') ParentidAttr = Some pid"
    by (simp add: update_conv')
  moreover have "\<forall>a. HasPrefix a ChecksumPrefix \<longrightarrow> map_of (xattrs ?i') a = map_of (xattrs i) a"
    using parentid_not_checksum by (simp add: update_conv')
  ultimately show ?thesis by simp
qed

theorem trash_round_trip_witness:
  "map_of (files exTrashed) ''/s/a/f'' = None \<and>
   content (the (map_of (files exRestored) ''/s/a/f'')) = ''HELLO'' \<and>
   map_of (xattrs (the (map_of (files exRestored) ''/s/a/f''))) IDAttr = Some ''f1'' \<and>
   map_of (xattrs (the (map_of (files exRestored) ''/s/a/f''))) ParentidAttr = Some ''a1'' \<and>
   map_of (xattrs (the (map_of (files exRestored) ''/s/a/f''))) ''user.oc.cs.md5'' = Some ''m2''"
proof -
  let ?d = "exDeps (exPerms True True True) (\<lambda>_. False)"
  let ?n = "exNode exWorld ''s'' ''f1''"
  let ?ref = "\<lparr>SpaceId = ''s'', OpaqueId = ''s'', Path = ''a/f''\<rparr>"
  let ?i = "exFile ''HELLO'' ''t2'' [(''user.oc.id'', ''f1''), (''user.oc.parentid'', ''a1''),
              (''user.oc.blobsize'', ''5''), (''user.oc.mtime'', ''t2''),
              (''user.oc.cs.md5'', ''m2'')]"
  have at: "nodeAt exWorld ?n ''/s/a/f''" by code_simp
  have ondisk: "map_of (files exWorld) ''/s/a/f'' = Some ?i" by code_simp
  have mv: "MoveToTrash ''t5'' ''2024-01-02T03:04:05'' ''k2'' exWorld ?n ''/s/a/f''
              = (None, exTrashed)" by code_simp
  have rs: "RestoreRecycleItem ?d exTrashed (SpaceID ?n) ''k2'' ''/'' ?ref = (None, exRestored)"
    by code_simp
  have root: "Join [InternalPath exTrashed (SpaceID ?n) (SpaceID ?n), ''.Trash'']
                = trashRootForNode exWorld ?n" by code_simp
  have whole: "Clean (Join [trashRootForNode exWorld ?n, ''files'', ''k2'' @ ''.trashitem'', ''/''])
                = Join [trashRootForNode exWorld ?n, ''files'', ''k2'' @ ''.trashitem'']"
    by code_simp
  have base: "NodeFromID ?d exTrashed (SpaceId ?ref) (OpaqueId ?ref) = Inr (exNode exTrashed ''s'' ''s'')"
    by (simp add: exDeps_def)
  have orig: "Join [nodePath exTrashed (exNode exTrashed ''s'' ''s''), Path ?ref] = ''/s/a/f''"
    by code_simp
  have info: "''/s/a/f'' \<noteq> Join [trashRootForNode exWorld ?n, ''info'', ''k2'' @ ''.trashinfo'']"
    by code_simp
  have parent: "IdentifyPath (files exTrashed) (Dir ''/s/a/f'') = Inr ([], ''a1'', [])"
    by code_simp
  have gone: "map_of (files exTrashed) ''/s/a/f'' = None" by code_simp
  have md5: "HasPrefix ''user.oc.cs.md5'' ChecksumPrefix" by code_simp
  have orig_attrs: "content ?i = ''HELLO''" "map_of (xattrs ?i) IDAttr = Some ''f1''"
    "map_of (xattrs ?i) ''user.oc.cs.md5'' = Some ''m2''"
    by (simp_all add: exFile_def IDAttr_def)
  from trash_round_trip [OF at ondisk mv rs root whole base orig info parent]
  obtain i' where "map_of (files exRestored) ''/s/a/f'' = Some i'"
    and "content i' = content ?i"
    and "map_of (xattrs i') IDAttr = map_of (xattrs ?i) IDAttr"
    and "map_of (xattrs i') ParentidAttr = Some ''a1''"
    and "map_of (xattrs i') ''user.oc.cs.md5'' = map_of (xattrs ?i) ''user.oc.cs.md5''"
    using md5 by blast
  then show ?thesis using gone orig_attrs by simp
qed

section \<open>The scan of a created file\<close>


lemma setDirty_missing:
  "map_of fs p = None \<Longrightarrow> setDirty fs p b = Inl (PathError p ENOENT)"
  by (simp add: setDirty_def xattrSet_def)

lemma Scan_create_file_parent_missing:
  assumes "map_of (files (lookup t)) (Dir path) = None" and "Dir path \<noteq> path"
  shows "fst (Scan d t path ActionCreate False) = Some (PathError (Dir path) ENOENT) \<and>
         map_of (pending (scanDebouncer (snd (Scan d t path ActionCreate False)))) (Dir path)
           = map_of (pending (scanDebouncer t)) (Dir path)"
  using assms
  by (auto simp add: Scan_def Let_def debounce_def setDirty_missing Debounce_def InProgress_def
      update_conv')




section \<open>The fast path of the assimilation\<close>

text \<open>A path whose own ids are cached names its space in the first round of the search.\<close>

lemma findSpaceId_of_cached_path:
  assumes "HasPrefix path (Root (options t))"
    and "map_of (pathcache (lookup t)) path = Some (spaceID, ident)" and "spaceID \<noteq> []"
    and "\<not> UseSpaceGroups (options t)"
  shows "findSpaceId d t (Suc fuel) path = Some (Inr spaceID)"
  using assms by (simp add: IDsForPath_def)

text \<open>
  Claim C6 (assimilation fast path).  Let the space of the path be found and the
  metadata lock of the path be free.  If the entry at the path carries an id, the id
  cache binds that id to the path itself, and the mtime attribute equals the
  modification time of the entry, then \<open>assimilate\<close> returns without an error and the
  tree is what it was: the disk with its attributes, the id cache, the events published,
  the goroutines started and the locks held.
\<close>

theorem assimilate_fast_path:
  assumes space: "findSpaceId d t (Suc fuel) (ItemPath it) = Some (Inr spaceID)"
    and free: "ItemPath it \<notin> set (held t)"
    and ondisk: "map_of (files (lookup t)) (ItemPath it) = Some fi"
    and inner: "ItemPath it \<noteq> ''/''"
    and ident: "attrOr fi IDAttr \<noteq> []"
    and cached: "GetCachedID (lookup t) spaceID (attrOr fi IDAttr) = Some (ItemPath it)"
    and mtime: "attrOr fi MTimeAttr = modTime fi"
  shows "assimilate d (Suc fuel) t it = Some (None, t)"
proof -
  have st: "osStat (files (lookup t)) (ItemPath it) = Inr fi"
    using ondisk inner by (simp add: osStat_def)
  have idp: "IdentifyPath (files (lookup t)) (ItemPath it) =
               Inr (attrOr fi SpaceIDAttr, attrOr fi IDAttr, attrOr fi MTimeAttr)"
    using ondisk by (simp add: IdentifyPath_def)
  show ?thesis
    using space free st idp ident cached mtime
    by (simp add: Let_def unlock_def del: findSpaceId.simps)
qed

theorem assimilate_fast_path_witness:
  "assimilate exD 3 (exTree 5) exItem = Some (None, exTree 5) \<and>
   attrOr (the (map_of (files (lookup (exTree 5))) ''/s/a/f'')) IDAttr = ''f1'' \<and>
   GetCachedID (lookup (exTree 5)) ''s'' ''f1'' = Some ''/s/a/f''"
proof -
  let ?fi = "exFile ''HELLO'' ''t2'' [(''user.oc.id'', ''f1''), (''user.oc.parentid'', ''a1''),
              (''user.oc.blobsize'', ''5''), (''user.oc.mtime'', ''t2''),
              (''user.oc.cs.md5'', ''m2'')]"
  have p: "ItemPath exItem = ''/s/a/f''" by (simp add: exItem_def)
  have space: "findSpaceId exD (exTree 5) (Suc 2) (ItemPath exItem) = Some (Inr ''s'')"
    by code_simp
  have free: "ItemPath exItem \<notin> set (held (exTree 5))" by (simp add: exTree_def)
  have ondisk: "map_of (files (lookup (exTree 5))) (ItemPath exItem) = Some ?fi" by code_simp
  have inner: "ItemPath exItem \<noteq> ''/''" by (simp add: exItem_def)
  have ident: "attrOr ?fi IDAttr = ''f1''" by code_simp
  have ident': "attrOr ?fi IDAttr \<noteq> []" by (simp add: ident)
  have cached: "GetCachedID (lookup (exTree 5)) ''s'' (attrOr ?fi IDAttr) = Some (ItemPath exItem)"
    by code_simp
  have cached': "GetCachedID (lookup (exTree 5)) ''s'' ''f1'' = Some ''/s/a/f''" by code_simp
  have mtime: "attrOr ?fi MTimeAttr = modTime ?fi" by code_simp
  have three: "(3::nat) = Suc 2" by simp
  show ?thesis
    using assimilate_fast_path [OF space free ondisk inner ident' cached mtime]
      ondisk ident cached' p
    by (simp only: three option.sel simp_thms)
qed

section \<open>Dirty directories in a warm-up\<close>

text \<open>
  \<open>isDirty\<close> answers \<open>true\<close> for a path whose dirty attribute is not set, and otherwise
  whether the attribute is \<open>true\<close>.  The part of the walk function behind the dirty check
  never skips a directory.
\<close>

lemma isDirty_value:
  assumes "map_of fs p = Some i"
  shows "isDirty fs p = Inr (case map_of (xattrs i) dirtyFlag of None \<Rightarrow> True | Some v \<Rightarrow> v = ''true'')"
  using assms by (simp add: isDirty_def xattrGet_def split: option.splits)

lemma isDirty_unset:
  assumes "map_of fs p = Some i" and "map_of (xattrs i) dirtyFlag = None"
  shows "isDirty fs p = Inr True"
  using assms by (simp add: isDirty_value)





text \<open>
  In the example space an \<open>onlyDirty\<close> warm-up reaches the file \<open>a/f\<close> below the untagged
  directory \<open>/s/a\<close> (and clears its dirty flag); with \<open>/s/a\<close> tagged as not dirty the file
  is not visited.
\<close>

lemma warmup_walk_example:
  "map_option (\<lambda>r. map_of (xattrs (the (map_of (files (lookup (snd r))) ''/s/a/f''))) dirtyFlag)
     (WarmupIDCache exD 10 (exTree 5) ''/s'' False True) = Some (Some ''false'') \<and>
   map_option (\<lambda>r. map_of (xattrs (the (map_of (files (lookup (snd r))) ''/s/a/f''))) dirtyFlag)
     (WarmupIDCache exD 10 (withFiles (exTree 5) exCleanFiles) ''/s'' False True) = Some None"
  by code_simp

end
